theory Spec2Isabelle
  imports Complex_Main
begin

section \<open>Python values\<close>

text \<open>
  The passes of \<^verbatim>\<open>onnx_coreml/_transformers.py\<close> work on Python objects.  Every
  exception the source can raise is a value of \<open>py_error\<close>; a function that can raise
  returns \<open>py_error + 'a\<close> with \<open>Inl\<close> for the exception.
\<close>

datatype py_error = KeyError | IndexError | ValueError | TypeError | AssertionError

definition rbind :: "py_error + 'a \<Rightarrow> ('a \<Rightarrow> py_error + 'b) \<Rightarrow> py_error + 'b" where
  "rbind m f = (case m of Inl e \<Rightarrow> Inl e | Inr x \<Rightarrow> f x)"

text \<open>A \<^verbatim>\<open>for\<close> loop whose body can raise: the first exception ends the loop.\<close>

fun rfold :: "('a \<Rightarrow> 'b \<Rightarrow> py_error + 'a) \<Rightarrow> 'a \<Rightarrow> 'b list \<Rightarrow> py_error + 'a" where
  "rfold f a [] = Inr a"
| "rfold f a (x # xs) = rbind (f a x) (\<lambda>a'. rfold f a' xs)"

text \<open>\<^verbatim>\<open>xs[i]\<close> for a constant index \<open>i \<ge> 0\<close>: IndexError out of range.\<close>

definition list_get :: "'a list \<Rightarrow> nat \<Rightarrow> py_error + 'a" where
  "list_get xs i = (if i < length xs then Inr (xs ! i) else Inl IndexError)"

text \<open>\<^verbatim>\<open>xs[-1]\<close>.\<close>

definition list_last :: "'a list \<Rightarrow> py_error + 'a" where
  "list_last xs = (if xs = [] then Inl IndexError else Inr (last xs))"

text \<open>\<^verbatim>\<open>xs.remove(x)\<close>: drops the first occurrence, ValueError when there is none.\<close>

definition list_remove :: "'a list \<Rightarrow> 'a \<Rightarrow> py_error + 'a list" where
  "list_remove xs x = (if x \<in> set xs then Inr (remove1 x xs) else Inl ValueError)"

text \<open>
  A dict is an association list with at most one entry per key: \<open>dict_set\<close> overwrites
  the entry of a key that is present and appends a new one otherwise.
\<close>

type_synonym ('k, 'v) dict = "('k \<times> 'v) list"

definition dict_has :: "('k, 'v) dict \<Rightarrow> 'k \<Rightarrow> bool" where
  "dict_has d k = (map_of d k \<noteq> None)"

definition dict_get :: "('k, 'v) dict \<Rightarrow> 'k \<Rightarrow> py_error + 'v" where
  "dict_get d k = (case map_of d k of None \<Rightarrow> Inl KeyError | Some v \<Rightarrow> Inr v)"

fun dict_set :: "('k, 'v) dict \<Rightarrow> 'k \<Rightarrow> 'v \<Rightarrow> ('k, 'v) dict" where
  "dict_set [] k v = [(k, v)]"
| "dict_set (p # ps) k v = (if fst p = k then (k, v) # ps else p # dict_set ps k v)"

definition dict_del :: "('k, 'v) dict \<Rightarrow> 'k \<Rightarrow> ('k, 'v) dict" where
  "dict_del d k = filter (\<lambda>p. fst p \<noteq> k) d"

text \<open>\<^verbatim>\<open>str(n)\<close> for a natural number.\<close>

fun str :: "nat \<Rightarrow> string" where
  "str n = (if n < 10 then [''0123456789'' ! n]
            else str (n div 10) @ [''0123456789'' ! (n mod 10)])"

declare str.simps [simp del]

section \<open>Tensors\<close>

text \<open>
  A tensor is its shape and its entries in row-major order.  Entries are real numbers:
  the rounding of float32 arithmetic and the dtype of an array are outside the model.
\<close>

record tensor =
  shape :: "nat list"
  data :: "real list"

text \<open>\<^verbatim>\<open>np.zeros((n,))\<close>.\<close>

definition np_zeros :: "nat \<Rightarrow> tensor" where
  "np_zeros n = \<lparr>shape = [n], data = replicate n 0\<rparr>"

text \<open>
  Broadcasting of two shapes, read from the last axis backwards: two extents agree when
  they are equal or one of them is 1; the shorter shape is padded with 1s in front.
\<close>

fun broadcast_rev :: "nat list \<Rightarrow> nat list \<Rightarrow> nat list option" where
  "broadcast_rev [] ys = Some ys"
| "broadcast_rev xs [] = Some xs"
| "broadcast_rev (x # xs) (y # ys) =
     (if x = y \<or> y = 1 then map_option ((#) x) (broadcast_rev xs ys)
      else if x = 1 then map_option ((#) y) (broadcast_rev xs ys)
      else None)"

definition broadcast_shapes :: "nat list \<Rightarrow> nat list \<Rightarrow> nat list option" where
  "broadcast_shapes s1 s2 = map_option rev (broadcast_rev (rev s1) (rev s2))"

text \<open>All multi-indices of a shape, in row-major order.\<close>

fun indices :: "nat list \<Rightarrow> nat list list" where
  "indices [] = [[]]"
| "indices (d # ds) = concat (map (\<lambda>i. map ((#) i) (indices ds)) [0..<d])"

text \<open>
  The entry of tensor \<open>t\<close> that a multi-index of the broadcast result reads: the index
  is cut to the last axes of \<open>t\<close>, and an axis of extent 1 is read at 0.
\<close>

definition flat_index :: "nat list \<Rightarrow> nat list \<Rightarrow> nat" where
  "flat_index sh idx = foldl (\<lambda>acc (d, i). acc * d + (if d = 1 then 0 else i)) 0 (zip sh idx)"

definition broadcast_entry :: "tensor \<Rightarrow> nat list \<Rightarrow> real" where
  "broadcast_entry t idx =
     data t ! flat_index (shape t) (drop (length idx - length (shape t)) idx)"

definition np_binary :: "(real \<Rightarrow> real \<Rightarrow> real) \<Rightarrow> tensor \<Rightarrow> tensor \<Rightarrow> py_error + tensor" where
  "np_binary f a b =
     (case broadcast_shapes (shape a) (shape b) of
        None \<Rightarrow> Inl ValueError
      | Some sh \<Rightarrow>
          Inr \<lparr>shape = sh,
               data = map (\<lambda>idx. f (broadcast_entry a idx) (broadcast_entry b idx)) (indices sh)\<rparr>)"

text \<open>\<^verbatim>\<open>a + b\<close> and \<^verbatim>\<open>np.multiply(a, b)\<close> on arrays.\<close>

definition np_add :: "tensor \<Rightarrow> tensor \<Rightarrow> py_error + tensor" where
  "np_add = np_binary (+)"

definition np_multiply :: "tensor \<Rightarrow> tensor \<Rightarrow> py_error + tensor" where
  "np_multiply = np_binary (*)"

text \<open>
  \<^verbatim>\<open>tensor.reshape(shape)\<close>: one negative extent stands for the extent that makes the
  sizes agree; the entries and their order stay as they are.
\<close>

definition np_reshape :: "tensor \<Rightarrow> int list \<Rightarrow> py_error + tensor" where
  "np_reshape t sh =
     (let size = prod_list (shape t);
          known = nat (prod_list (filter (\<lambda>d. 0 \<le> d) sh));
          unknown = length (filter (\<lambda>d. d < 0) sh)
      in if unknown > 1 then Inl ValueError
         else if unknown = 1 then
           (if known = 0 \<or> size mod known \<noteq> 0 then Inl ValueError
            else Inr \<lparr>shape = map (\<lambda>d. if d < 0 then size div known else nat d) sh,
                      data = data t\<rparr>)
         else if known \<noteq> size then Inl ValueError
         else Inr \<lparr>shape = map nat sh, data = data t\<rparr>)"

section \<open>Nodes and graphs\<close>

text \<open>
  Attribute values: the kinds the fusion rules read (an integer, a list of integers)
  and strings.  Float-valued attributes are not modelled.
\<close>

datatype attr = AInt int | AInts "int list" | AStr string

text \<open>
  Node objects live in a heap and are named by their reference (a natural number):
  \<open>parents\<close> and \<open>children\<close> hold references, so that a mutation of a node is seen
  through every list that mentions it, as in Python.  A reference always points at an
  object, hence the heap is a total function.  The lists of edge names of two nodes are
  separate objects.
\<close>

record node =
  name :: string
  op_type :: string
  attrs :: "(string, attr) dict"
  inputs :: "string list"
  outputs :: "string list"
  input_tensors :: "(string, tensor) dict"
  parents :: "nat list"
  children :: "nat list"

text \<open>
  A graph: the references of its nodes in order, its declared inputs and outputs (an
  edge name with a shape), the heap its references point into, and the next reference
  a newly created node is given (every reference in use is below it).
\<close>

record graph =
  nodes :: "nat list"
  graph_inputs :: "(string \<times> int list) list"
  graph_outputs :: "(string \<times> int list) list"
  heap :: "nat \<Rightarrow> node"
  next_ref :: nat

text \<open>An assignment to a field of the node object \<open>n\<close>: \<open>f\<close> is the change to the object.\<close>

definition update_node :: "(nat \<Rightarrow> node) \<Rightarrow> nat \<Rightarrow> (node \<Rightarrow> node) \<Rightarrow> (nat \<Rightarrow> node)" where
  "update_node h n f = h(n := f (h n))"

text \<open>
  Modelled from the spec: the class \<^verbatim>\<open>Node\<close> of \<^verbatim>\<open>_graph.py\<close> is not among the
  sources.  Its constructor takes name, operator, attributes, inputs and outputs; a new
  node has no literal tensors and no neighbours (spec, section 3).
\<close>

definition Node :: "string \<Rightarrow> string \<Rightarrow> (string, attr) dict \<Rightarrow> string list \<Rightarrow> string list \<Rightarrow> node" where
  "Node nm op as ins outs =
     \<lparr>name = nm, op_type = op, attrs = as, inputs = ins, outputs = outs,
      input_tensors = [], parents = [], children = []\<rparr>"

text \<open>
  Modelled from the spec: \<^verbatim>\<open>Node.add_child\<close> and \<^verbatim>\<open>Node.add_parent\<close> are not among
  the sources.  They link two nodes in both directions, "skipping if already linked"
  (spec, section 4.2, step 5).
\<close>

definition add_child :: "(nat \<Rightarrow> node) \<Rightarrow> nat \<Rightarrow> nat \<Rightarrow> (nat \<Rightarrow> node)" where
  "add_child h self child =
     (let h1 = update_node h self (\<lambda>N. N\<lparr>children := children N @ [child]\<rparr>)
      in if self \<in> set (parents (h1 child)) then h1
         else update_node h1 child (\<lambda>N. N\<lparr>parents := parents N @ [self]\<rparr>))"

definition add_parent :: "(nat \<Rightarrow> node) \<Rightarrow> nat \<Rightarrow> nat \<Rightarrow> (nat \<Rightarrow> node)" where
  "add_parent h self parent =
     (let h1 = update_node h self (\<lambda>N. N\<lparr>parents := parents N @ [parent]\<rparr>)
      in if self \<in> set (children (h1 parent)) then h1
         else update_node h1 parent (\<lambda>N. N\<lparr>children := children N @ [self]\<rparr>))"

text \<open>
  Modelled from the spec: \<^verbatim>\<open>Node.get_only_parent\<close> is not among the sources.  It
  returns the parent of a node that has exactly one, and raises otherwise.
\<close>

definition get_only_parent :: "(nat \<Rightarrow> node) \<Rightarrow> nat \<Rightarrow> py_error + nat" where
  "get_only_parent h n = (case parents (h n) of [p] \<Rightarrow> Inr p | _ \<Rightarrow> Inl ValueError)"

text \<open>
  Modelled from the spec: the constructor \<^verbatim>\<open>Graph(nodes, inputs, outputs)\<close> of
  \<^verbatim>\<open>_graph.py\<close> is not among the sources.  It "rebuilds adjacency from scratch by
  scanning every node's input/output edge names and wiring parent/child sets" (spec,
  section 4.1): node B is a child of node A iff some name in A's outputs appears in B's
  inputs (section 3).  Nodes that are not in the list are left as they are.
\<close>

definition feeds :: "(nat \<Rightarrow> node) \<Rightarrow> nat \<Rightarrow> nat \<Rightarrow> bool" where
  "feeds h a b = (list_ex (\<lambda>out. out \<in> set (inputs (h b))) (outputs (h a)))"

definition Graph :: "nat list \<Rightarrow> (string \<times> int list) list \<Rightarrow> (string \<times> int list) list
                       \<Rightarrow> (nat \<Rightarrow> node) \<Rightarrow> nat \<Rightarrow> graph" where
  "Graph ns ins outs h nxt =
     \<lparr>nodes = ns, graph_inputs = ins, graph_outputs = outs,
      heap = (\<lambda>n. if n \<in> set ns
                   then (h n)\<lparr>parents := filter (\<lambda>a. feeds h a n) (remdups ns),
                              children := filter (\<lambda>b. feeds h n b) (remdups ns)\<rparr>
                   else h n),
      next_ref = nxt\<rparr>"

section \<open>DanglingOutputsRemover\<close>

definition children_inputs :: "(nat \<Rightarrow> node) \<Rightarrow> nat \<Rightarrow> string list" where
  "children_inputs h n = concat (map (\<lambda>child. inputs (h child)) (children (h n)))"

text \<open>The body of \<^verbatim>\<open>for node in nodes\<close> (lines 268 to 280).\<close>

definition dangling_node :: "string list \<Rightarrow> (nat \<Rightarrow> node) \<Rightarrow> nat \<Rightarrow> (nat \<Rightarrow> node)" where
  "dangling_node graph_output_names h n =
     (let removed_outputs =
            filter (\<lambda>output. output \<notin> set graph_output_names
                              \<and> output \<notin> set (children_inputs h n)) (outputs (h n))
      in update_node h n (\<lambda>N. N\<lparr>outputs :=
           filter (\<lambda>out. out \<notin> set removed_outputs) (outputs N)\<rparr>))"

definition DanglingOutputsRemover :: "graph \<Rightarrow> graph" where
  "DanglingOutputsRemover g =
     g\<lparr>heap := foldl (dangling_node (map fst (graph_outputs g))) (heap g) (nodes g)\<rparr>"

section \<open>NodesFuser: the chain-matching engine\<close>

text \<open>
  A fusion rule: the window length and the two methods a subclass of \<^verbatim>\<open>NodesFuser\<close>
  provides.  \<open>'s\<close> is the state the fuser object keeps between calls; \<open>merge\<close> returns
  the new state of the fuser, the graph with its mutated heap and the replacement nodes.
\<close>

record 's fuser =
  num_nodes :: nat
  is_eligible :: "graph \<Rightarrow> nat list \<Rightarrow> py_error + bool"
  merge :: "'s \<Rightarrow> graph \<Rightarrow> nat list \<Rightarrow> py_error + ('s \<times> graph \<times> nat list)"

text \<open>
  Lines 24 to 34: \<^verbatim>\<open>for _ in range(self.num_nodes - 1)\<close>, with the number of rounds
  left, the current node \<open>n\<close> and the window collected so far.
\<close>

fun collect :: "(nat \<Rightarrow> node) \<Rightarrow> nat \<Rightarrow> nat \<Rightarrow> nat list \<Rightarrow> py_error + nat list" where
  "collect h 0 n w = Inr w"
| "collect h (Suc r) n w =
     (if length (parents (h n)) \<noteq> 1 then Inr w
      else rbind (get_only_parent h n) (\<lambda>p.
        if length (children (h p)) \<noteq> 1 then Inr w
        else collect h r p (n # w)))"

text \<open>Lines 22 to 40: the window of the node, before its length is looked at.\<close>

definition nodes_window :: "(nat \<Rightarrow> node) \<Rightarrow> nat \<Rightarrow> nat \<Rightarrow> py_error + nat list" where
  "nodes_window h k node =
     rbind (collect h (k - 1) node []) (\<lambda>w.
       if length w > 0 then
         rbind (list_get w 0) (\<lambda>first.
         rbind (get_only_parent h first) (\<lambda>p.
           if length (children (h p)) = 1 then Inr (p # w) else Inr w))
       else Inr w)"

text \<open>Lines 22 to 42: \<open>None\<close> is the \<^verbatim>\<open>continue\<close> of line 42.\<close>

definition match_window :: "(nat \<Rightarrow> node) \<Rightarrow> nat \<Rightarrow> nat \<Rightarrow> py_error + nat list option" where
  "match_window h k node =
     rbind (nodes_window h k node) (\<lambda>w. if length w \<noteq> k then Inr None else Inr (Some w))"

text \<open>
  Lines 47 to 54.  The two loops run over \<^verbatim>\<open>first.parents\<close> and \<^verbatim>\<open>last.children\<close>;
  their bodies leave these two lists as they are (a link is added only where it is
  missing), so the loops are folds over the lists as they stand when the loops start.
\<close>

definition rewire_parent :: "nat \<Rightarrow> nat list \<Rightarrow> (nat \<Rightarrow> node) \<Rightarrow> nat \<Rightarrow> py_error + (nat \<Rightarrow> node)" where
  "rewire_parent first merged h parent =
     rbind (list_remove (children (h parent)) first) (\<lambda>cs.
       let h1 = update_node h parent (\<lambda>N. N\<lparr>children := cs\<rparr>) in
       rbind (list_get merged 0) (\<lambda>m0.
         if m0 \<notin> set (children (h1 parent)) then Inr (add_child h1 parent m0) else Inr h1))"

definition rewire_child :: "nat \<Rightarrow> nat list \<Rightarrow> (nat \<Rightarrow> node) \<Rightarrow> nat \<Rightarrow> py_error + (nat \<Rightarrow> node)" where
  "rewire_child lst merged h child =
     rbind (list_remove (parents (h child)) lst) (\<lambda>ps.
       let h1 = update_node h child (\<lambda>N. N\<lparr>parents := ps\<rparr>) in
       rbind (list_last merged) (\<lambda>ml.
         if ml \<notin> set (parents (h1 child)) then Inr (add_parent h1 child ml) else Inr h1))"

text \<open>
  The body of the first loop (lines 22 to 56).  The state is the fuser's own state, the
  graph and the dict \<^verbatim>\<open>merged_nodes\<close>.
\<close>

definition fuse_node :: "'s fuser \<Rightarrow> 's \<times> graph \<times> (string \<rightharpoonup> nat list) \<Rightarrow> nat
                          \<Rightarrow> py_error + ('s \<times> graph \<times> (string \<rightharpoonup> nat list))" where
  "fuse_node f st node =
     (case st of (s, g, merged_nodes) \<Rightarrow>
        rbind (match_window (heap g) (num_nodes f) node) (\<lambda>mw.
          case mw of
            None \<Rightarrow> Inr st
          | Some w \<Rightarrow>
              rbind (is_eligible f g w) (\<lambda>ok.
                if \<not> ok then Inr st
                else
                  rbind (merge f s g w) (\<lambda>(s', g', merged).
                  rbind (list_get w 0) (\<lambda>first.
                  rbind (list_last w) (\<lambda>lst.
                  rbind (rfold (rewire_parent first merged) (heap g') (parents (heap g' first))) (\<lambda>h1.
                  rbind (rfold (rewire_child lst merged) h1 (children (h1 lst))) (\<lambda>h2.
                    Inr (s', g'\<lparr>heap := h2\<rparr>,
                         foldl (\<lambda>m n. m(name (h2 n) \<mapsto> merged)) merged_nodes w)))))))))"

text \<open>The body of the second loop (lines 60 to 68).\<close>

definition emit_node :: "(nat \<Rightarrow> node) \<Rightarrow> (string \<rightharpoonup> nat list) \<Rightarrow> nat list \<times> nat list \<Rightarrow> nat
                          \<Rightarrow> py_error + (nat list \<times> nat list)" where
  "emit_node h merged_nodes acc node =
     (case acc of (transformed_nodes, added_merged) \<Rightarrow>
        (case merged_nodes (name (h node)) of
           None \<Rightarrow> Inr (transformed_nodes @ [node], added_merged)
         | Some merged \<Rightarrow>
             rbind (list_get merged 0) (\<lambda>m0.
               if m0 \<notin> set added_merged
               then Inr (transformed_nodes @ merged, added_merged @ [m0])
               else Inr acc)))"

definition NodesFuser_call :: "'s fuser \<Rightarrow> 's \<Rightarrow> graph \<Rightarrow> py_error + ('s \<times> graph)" where
  "NodesFuser_call f s g =
     rbind (rfold (fuse_node f) (s, g, Map.empty) (nodes g)) (\<lambda>(s', g', merged_nodes).
     rbind (rfold (emit_node (heap g') merged_nodes) ([], []) (nodes g)) (\<lambda>(transformed_nodes, added).
       Inr (s', Graph transformed_nodes (graph_inputs g) (graph_outputs g) (heap g') (next_ref g'))))"

text \<open>The default \<^verbatim>\<open>NodesFuser.merge\<close> (lines 75 to 78).\<close>

definition NodesFuser_merge :: "'s \<Rightarrow> graph \<Rightarrow> nat list \<Rightarrow> py_error + ('s \<times> graph \<times> nat list)" where
  "NodesFuser_merge s g nds =
     rbind (list_last nds) (\<lambda>lst.
     rbind (list_get nds 0) (\<lambda>first.
       Inr (s, g\<lparr>heap := update_node (heap g) first (\<lambda>N. N\<lparr>outputs := outputs (heap g lst)\<rparr>)\<rparr>,
            [first])))"

section \<open>ConvAddFuser\<close>

definition ConvAdd_is_eligible :: "graph \<Rightarrow> nat list \<Rightarrow> py_error + bool" where
  "ConvAdd_is_eligible g nds =
     rbind (list_get nds 0) (\<lambda>parent.
     rbind (list_get nds 1) (\<lambda>child.
       if op_type (heap g parent) \<noteq> ''Conv'' then Inr False
       else if op_type (heap g child) \<noteq> ''Add'' then Inr False
       else if \<not> dict_has (attrs (heap g child)) ''broadcast'' then Inr False
       else if \<not> dict_has (attrs (heap g child)) ''axis'' then Inr False
       else
         rbind (dict_get (attrs (heap g child)) ''broadcast'') (\<lambda>broadcast.
           if broadcast \<noteq> AInt 1 then Inr False
           else
             rbind (dict_get (attrs (heap g child)) ''axis'') (\<lambda>axis.
               if axis \<noteq> AInt 1 then Inr False else Inr True))))"

text \<open>
  Lines 112 to 121: the name of the bias input, the bias, and the heap (in which a Conv
  without a bias input has been given one, filled with zeros).
\<close>

definition ConvAdd_bias :: "(nat \<Rightarrow> node) \<Rightarrow> nat \<Rightarrow> nat \<Rightarrow> py_error + (string \<times> tensor \<times> (nat \<Rightarrow> node))" where
  "ConvAdd_bias h parent output_channels =
     (if length (inputs (h parent)) > 2 then
        rbind (list_get (inputs (h parent)) 2) (\<lambda>bias_input_name.
        rbind (dict_get (input_tensors (h parent)) bias_input_name) (\<lambda>bias.
          Inr (bias_input_name, bias, h)))
      else
        (let bias_input_name = name (h parent) @ ''_bias'';
             h1 = update_node h parent (\<lambda>N. N\<lparr>inputs := inputs N @ [bias_input_name]\<rparr>);
             bias = np_zeros output_channels
         in Inr (bias_input_name, bias,
                 update_node h1 parent (\<lambda>N. N\<lparr>input_tensors :=
                   dict_set (input_tensors N) bias_input_name bias\<rparr>))))"

text \<open>
  Lines 124 to 126, shared by the two-node rules: the parent takes the outputs of the
  child and the link between the two is cut.
\<close>

definition adopt_outputs :: "(nat \<Rightarrow> node) \<Rightarrow> nat \<Rightarrow> nat \<Rightarrow> py_error + (nat \<Rightarrow> node)" where
  "adopt_outputs h parent child =
     (let h1 = update_node h parent (\<lambda>N. N\<lparr>outputs := outputs (h child)\<rparr>) in
      rbind (list_remove (children (h1 parent)) child) (\<lambda>cs.
        let h2 = update_node h1 parent (\<lambda>N. N\<lparr>children := cs\<rparr>) in
        rbind (list_remove (parents (h2 child)) parent) (\<lambda>ps.
          Inr (update_node h2 child (\<lambda>N. N\<lparr>parents := ps\<rparr>)))))"

definition ConvAdd_merge :: "'s \<Rightarrow> graph \<Rightarrow> nat list \<Rightarrow> py_error + ('s \<times> graph \<times> nat list)" where
  "ConvAdd_merge s g nds =
     rbind (list_get nds 0) (\<lambda>parent.
     rbind (list_get nds 1) (\<lambda>child.
     rbind (list_get (inputs (heap g parent)) 1) (\<lambda>weight_name.
     rbind (dict_get (input_tensors (heap g parent)) weight_name) (\<lambda>weight.
     rbind (list_get (shape weight) 0) (\<lambda>output_channels.
     rbind (ConvAdd_bias (heap g) parent output_channels) (\<lambda>(bias_input_name, bias, h1).
     rbind (list_get (inputs (h1 child)) 1) (\<lambda>const_name.
     rbind (dict_get (input_tensors (h1 child)) const_name) (\<lambda>const.
     rbind (np_add bias const) (\<lambda>bias'.
       let h2 = update_node h1 parent (\<lambda>N. N\<lparr>input_tensors :=
                  dict_set (input_tensors N) bias_input_name bias'\<rparr>) in
       rbind (adopt_outputs h2 parent child) (\<lambda>h3.
         Inr (s, g\<lparr>heap := h3\<rparr>, [parent])))))))))))"

definition ConvAddFuser :: "'s fuser" where
  "ConvAddFuser = \<lparr>num_nodes = 2, is_eligible = ConvAdd_is_eligible, merge = ConvAdd_merge\<rparr>"

section \<open>BNBroadcastedMulFuser and BNBroadcastedAddFuser\<close>

definition BNBroadcastedMul_is_eligible :: "graph \<Rightarrow> nat list \<Rightarrow> py_error + bool" where
  "BNBroadcastedMul_is_eligible g nds =
     rbind (list_get nds 0) (\<lambda>parent.
     rbind (list_get nds 1) (\<lambda>child.
       if op_type (heap g parent) \<noteq> ''BatchNormalization'' then Inr False
       else if op_type (heap g child) \<noteq> ''Mul'' then Inr False
       else if \<not> dict_has (attrs (heap g child)) ''broadcast'' then Inr False
       else
         rbind (dict_get (attrs (heap g child)) ''broadcast'') (\<lambda>broadcast.
           if broadcast \<noteq> AInt 1 then Inr False
           else if \<not> dict_has (attrs (heap g child)) ''axis'' then Inr False
           else
             rbind (dict_get (attrs (heap g child)) ''axis'') (\<lambda>axis.
               if axis \<noteq> AInt 1 then Inr False
               else
                 rbind (list_get (inputs (heap g child)) 1) (\<lambda>const_name.
                   if \<not> dict_has (input_tensors (heap g child)) const_name then Inr False
                   else Inr True)))))"

definition BNBroadcastedMul_merge :: "'s \<Rightarrow> graph \<Rightarrow> nat list \<Rightarrow> py_error + ('s \<times> graph \<times> nat list)" where
  "BNBroadcastedMul_merge s g nds =
     rbind (list_get nds 0) (\<lambda>parent.
     rbind (list_get nds 1) (\<lambda>child.
     let h = heap g in
     rbind (list_get (inputs (h parent)) 1) (\<lambda>weight_name.
     rbind (dict_get (input_tensors (h parent)) weight_name) (\<lambda>weight.
     rbind (list_get (inputs (h parent)) 2) (\<lambda>bias_name.
     rbind (dict_get (input_tensors (h parent)) bias_name) (\<lambda>bias.
     rbind (list_get (inputs (h child)) 1) (\<lambda>const_name.
     rbind (dict_get (input_tensors (h child)) const_name) (\<lambda>W.
     rbind (np_multiply weight W) (\<lambda>weight'.
       let h1 = update_node h parent (\<lambda>N. N\<lparr>input_tensors :=
                  dict_set (input_tensors N) weight_name weight'\<rparr>) in
       rbind (np_multiply bias W) (\<lambda>bias'.
         let h2 = update_node h1 parent (\<lambda>N. N\<lparr>input_tensors :=
                    dict_set (input_tensors N) bias_name bias'\<rparr>) in
         rbind (adopt_outputs h2 parent child) (\<lambda>h3.
           Inr (s, g\<lparr>heap := h3\<rparr>, [parent]))))))))))))"

definition BNBroadcastedMulFuser :: "'s fuser" where
  "BNBroadcastedMulFuser =
     \<lparr>num_nodes = 2, is_eligible = BNBroadcastedMul_is_eligible, merge = BNBroadcastedMul_merge\<rparr>"

definition BNBroadcastedAdd_is_eligible :: "graph \<Rightarrow> nat list \<Rightarrow> py_error + bool" where
  "BNBroadcastedAdd_is_eligible g nds =
     rbind (list_get nds 0) (\<lambda>parent.
     rbind (list_get nds 1) (\<lambda>child.
       if op_type (heap g parent) \<noteq> ''BatchNormalization'' then Inr False
       else if op_type (heap g child) \<noteq> ''Add'' then Inr False
       else if \<not> dict_has (attrs (heap g child)) ''broadcast'' then Inr False
       else
         rbind (dict_get (attrs (heap g child)) ''broadcast'') (\<lambda>broadcast.
           if broadcast \<noteq> AInt 1 then Inr False
           else if \<not> dict_has (attrs (heap g child)) ''axis'' then Inr False
           else
             rbind (dict_get (attrs (heap g child)) ''axis'') (\<lambda>axis.
               if axis \<noteq> AInt 1 then Inr False
               else if length (inputs (heap g child)) \<noteq> 2 then Inr False
               else
                 rbind (list_get (inputs (heap g child)) 1) (\<lambda>const_name.
                   if \<not> dict_has (input_tensors (heap g child)) const_name then Inr False
                   else Inr True)))))"

definition BNBroadcastedAdd_merge :: "'s \<Rightarrow> graph \<Rightarrow> nat list \<Rightarrow> py_error + ('s \<times> graph \<times> nat list)" where
  "BNBroadcastedAdd_merge s g nds =
     rbind (list_get nds 0) (\<lambda>parent.
     rbind (list_get nds 1) (\<lambda>child.
     let h = heap g in
     rbind (list_get (inputs (h parent)) 2) (\<lambda>bias_name.
     rbind (dict_get (input_tensors (h parent)) bias_name) (\<lambda>bias.
     rbind (list_get (inputs (h child)) 1) (\<lambda>const_name.
     rbind (dict_get (input_tensors (h child)) const_name) (\<lambda>b.
     rbind (np_add bias b) (\<lambda>bias'.
       let h1 = update_node h parent (\<lambda>N. N\<lparr>input_tensors :=
                  dict_set (input_tensors N) bias_name bias'\<rparr>) in
       rbind (adopt_outputs h1 parent child) (\<lambda>h2.
         Inr (s, g\<lparr>heap := h2\<rparr>, [parent])))))))))"

definition BNBroadcastedAddFuser :: "'s fuser" where
  "BNBroadcastedAddFuser =
     \<lparr>num_nodes = 2, is_eligible = BNBroadcastedAdd_is_eligible, merge = BNBroadcastedAdd_merge\<rparr>"

section \<open>DropoutRemover\<close>

definition DropoutRemover_is_eligible :: "graph \<Rightarrow> nat list \<Rightarrow> py_error + bool" where
  "DropoutRemover_is_eligible g nds =
     rbind (list_get nds 1) (\<lambda>child. Inr (op_type (heap g child) = ''Dropout''))"

definition DropoutRemover_merge :: "'s \<Rightarrow> graph \<Rightarrow> nat list \<Rightarrow> py_error + ('s \<times> graph \<times> nat list)" where
  "DropoutRemover_merge s g nds =
     rbind (list_get nds 0) (\<lambda>parent.
     rbind (list_get nds 1) (\<lambda>child.
     let h = heap g in
     rbind (list_remove (children (h parent)) child) (\<lambda>cs.
       let h1 = update_node h parent (\<lambda>N. N\<lparr>children := cs\<rparr>) in
       rbind (list_remove (parents (h1 child)) parent) (\<lambda>ps.
         let h2 = update_node h1 child (\<lambda>N. N\<lparr>parents := ps\<rparr>) in
         Inr (s, g\<lparr>heap := update_node h2 parent (\<lambda>N. N\<lparr>outputs := outputs (h2 child)\<rparr>)\<rparr>,
              [parent])))))"

definition DropoutRemover :: "'s fuser" where
  "DropoutRemover =
     \<lparr>num_nodes = 2, is_eligible = DropoutRemover_is_eligible, merge = DropoutRemover_merge\<rparr>"

section \<open>PixelShuffleFuser\<close>

text \<open>\<^verbatim>\<open>d.get(k, default)\<close>.\<close>

definition dict_get_default :: "('k, 'v) dict \<Rightarrow> 'k \<Rightarrow> 'v \<Rightarrow> 'v" where
  "dict_get_default d k v = (case map_of d k of None \<Rightarrow> v | Some x \<Rightarrow> x)"

text \<open>
  Lines 321 to 357.  A shape attribute that is an integer has no \<^verbatim>\<open>len\<close> (TypeError).
  One that is a string has a length, but none of its characters equals an integer: the
  test of line 332 (or of line 350 for the last node) is then true and the result is
  False.
\<close>

definition PixelShuffle_is_eligible :: "graph \<Rightarrow> nat list \<Rightarrow> py_error + bool" where
  "PixelShuffle_is_eligible g nds =
     rbind (list_get nds 0) (\<lambda>n0.
       if op_type (heap g n0) \<noteq> ''Reshape'' then Inr False
       else
     rbind (list_get nds 1) (\<lambda>n1.
       if op_type (heap g n1) \<noteq> ''Transpose'' then Inr False
       else
     rbind (list_get nds 2) (\<lambda>n2.
       if op_type (heap g n2) \<noteq> ''Reshape'' then Inr False
       else
     rbind (dict_get (attrs (heap g n0)) ''shape'') (\<lambda>shape0.
       case shape0 of
         AInt _ \<Rightarrow> Inl TypeError
       | AStr _ \<Rightarrow> Inr False
       | AInts sh \<Rightarrow>
           if length sh \<noteq> 6 then Inr False
           else if sh ! 0 \<noteq> 1 \<or> sh ! 2 \<noteq> sh ! 3 then Inr False
           else
             let input_channels = sh ! 1;
                 scale_factor = sh ! 2;
                 input_height = sh ! 4;
                 input_width = sh ! 5
             in
               if dict_get_default (attrs (heap g n1)) ''perm'' (AInts []) \<noteq> AInts [0, 1, 4, 2, 5, 3]
               then Inr False
               else
                 rbind (dict_get (attrs (heap g n2)) ''shape'') (\<lambda>shape2.
                   case shape2 of
                     AInt _ \<Rightarrow> Inl TypeError
                   | AStr _ \<Rightarrow> Inr False
                   | AInts sh2 \<Rightarrow>
                       if length sh2 \<noteq> 4 then Inr False
                       else
                         let output_channels = sh2 ! 1;
                             output_height = sh2 ! 2;
                             output_width = sh2 ! 3
                         in
                           if input_channels \<noteq> output_channels then Inr False
                           else if input_height * scale_factor \<noteq> output_height then Inr False
                           else if input_width * scale_factor \<noteq> output_width then Inr False
                           else Inr True)))))"

text \<open>
  Lines 359 to 361.  \<^verbatim>\<open>Graph.get_unique_edge_name\<close> is not among the sources: it is
  the parameter \<open>gen\<close>.  The state of the fuser is its counter \<^verbatim>\<open>num_added\<close>.
\<close>

definition PixelShuffle_get_unique_edge_name ::
    "(graph \<Rightarrow> string \<Rightarrow> string) \<Rightarrow> nat \<Rightarrow> graph \<Rightarrow> string \<Rightarrow> nat \<times> string" where
  "PixelShuffle_get_unique_edge_name gen num_added g nm =
     (num_added + 1, gen g (nm @ ''_'' @ str (num_added + 1)))"

text \<open>
  Lines 382 to 387: \<^verbatim>\<open>shape[1], shape[2], shape[4], shape[5]\<close> of the shape attribute.
  An integer cannot be indexed; the characters of a string can, but not multiplied
  (line 389).
\<close>

definition shape_entries :: "attr \<Rightarrow> py_error + (int \<times> int \<times> int \<times> int)" where
  "shape_entries a =
     (case a of
        AInt _ \<Rightarrow> Inl TypeError
      | AStr s \<Rightarrow> if length s < 6 then Inl IndexError else Inl TypeError
      | AInts sh \<Rightarrow>
          rbind (list_get sh 1) (\<lambda>channels.
          rbind (list_get sh 2) (\<lambda>scale.
          rbind (list_get sh 4) (\<lambda>height.
          rbind (list_get sh 5) (\<lambda>width.
            Inr (channels, scale, height, width))))))"

text \<open>
  \<^verbatim>\<open>PixelShuffleFuser.merge\<close> in four stages.  Lines 378 to 397: the first Reshape
  and the Transpose are rewritten in place and the Transpose gets a new output name.
\<close>

definition PixelShuffle_rewrite_head ::
    "(graph \<Rightarrow> string \<Rightarrow> string) \<Rightarrow> nat \<Rightarrow> graph \<Rightarrow> nat \<Rightarrow> nat
      \<Rightarrow> py_error + (nat \<times> (nat \<Rightarrow> node) \<times> int \<times> int \<times> int \<times> int)" where
  "PixelShuffle_rewrite_head gen num_added g reshape_1 transpose_1 =
     (let h1 = update_node (heap g) transpose_1 (\<lambda>N. N\<lparr>children := []\<rparr>) in
      rbind (dict_get (attrs (h1 reshape_1)) ''shape'') (\<lambda>shape0.
      rbind (shape_entries shape0) (\<lambda>(channels, scale, height, width).
      let h2 = update_node h1 reshape_1 (\<lambda>N. N\<lparr>attrs :=
                 dict_set (attrs N) ''shape'' (AInts [channels, scale * scale, height, width])\<rparr>);
          h3 = update_node h2 transpose_1 (\<lambda>N. N\<lparr>attrs :=
                 dict_set (attrs N) ''perm'' (AInts [0, 2, 1, 3])\<rparr>);
          (num1, e1) = PixelShuffle_get_unique_edge_name gen num_added (g\<lparr>heap := h3\<rparr>)
                         ''pixel_shuffle_transpose'';
          h4 = update_node h3 transpose_1 (\<lambda>N. N\<lparr>outputs := [e1]\<rparr>)
      in Inr (num1, h4, channels, scale, height, width))))"

text \<open>
  Lines 399 to 406: the new Reshape node, made with the next free reference, reads the
  output of the Transpose and becomes its child.
\<close>

definition PixelShuffle_add_reshape ::
    "(graph \<Rightarrow> string \<Rightarrow> string) \<Rightarrow> nat \<Rightarrow> graph \<Rightarrow> (nat \<Rightarrow> node) \<Rightarrow> nat \<Rightarrow> nat
      \<Rightarrow> int \<times> int \<times> int \<times> int \<Rightarrow> nat \<times> (nat \<Rightarrow> node)" where
  "PixelShuffle_add_reshape gen num_added g h transpose_1 reshape_2 dims =
     (case dims of (channels, scale, height, width) \<Rightarrow>
        let (num2, e2) = PixelShuffle_get_unique_edge_name gen num_added (g\<lparr>heap := h\<rparr>)
                           ''pixel_shuffle_reshape'';
            h5 = update_node h reshape_2 (\<lambda>_. Node ''pixel_shuffle_reshape'' ''Reshape''
                   [(''shape'', AInts [channels * height, scale, scale, width])]
                   (outputs (h transpose_1)) [e2])
        in (num2, add_child h5 transpose_1 reshape_2))"

text \<open>Lines 408 to 415: the new Transpose node reads the output of the new Reshape.\<close>

definition PixelShuffle_add_transpose ::
    "(graph \<Rightarrow> string \<Rightarrow> string) \<Rightarrow> nat \<Rightarrow> graph \<Rightarrow> (nat \<Rightarrow> node) \<Rightarrow> nat \<Rightarrow> nat
      \<Rightarrow> nat \<times> (nat \<Rightarrow> node)" where
  "PixelShuffle_add_transpose gen num_added g h reshape_2 transpose_2 =
     (let (num3, e3) = PixelShuffle_get_unique_edge_name gen num_added (g\<lparr>heap := h\<rparr>)
                         ''pixel_shuffle_transpose'';
          h7 = update_node h transpose_2 (\<lambda>_. Node ''pixel_shuffle_transpose'' ''Transpose''
                 [(''perm'', AInts [0, 1, 3, 2])]
                 (outputs (h reshape_2)) [e3])
      in (num3, add_child h7 reshape_2 transpose_2))"

text \<open>Lines 417 to 420: the last Reshape reads the output of the new Transpose.\<close>

definition PixelShuffle_rewire_final :: "(nat \<Rightarrow> node) \<Rightarrow> nat \<Rightarrow> nat \<Rightarrow> (nat \<Rightarrow> node)" where
  "PixelShuffle_rewire_final h transpose_2 final_reshape =
     (let h9 = update_node h final_reshape (\<lambda>N. N\<lparr>inputs := outputs (h transpose_2)\<rparr>);
          h10 = update_node h9 final_reshape (\<lambda>N. N\<lparr>parents := []\<rparr>)
      in add_child h10 transpose_2 final_reshape)"

definition PixelShuffle_merge ::
    "(graph \<Rightarrow> string \<Rightarrow> string) \<Rightarrow> nat \<Rightarrow> graph \<Rightarrow> nat list \<Rightarrow> py_error + (nat \<times> graph \<times> nat list)" where
  "PixelShuffle_merge gen num_added g nds =
     rbind (list_get nds 0) (\<lambda>reshape_1.
     rbind (list_get nds 1) (\<lambda>transpose_1.
     rbind (PixelShuffle_rewrite_head gen num_added g reshape_1 transpose_1)
       (\<lambda>(num1, h4, dims).
     let reshape_2 = next_ref g;
         (num2, h6) = PixelShuffle_add_reshape gen num1 g h4 transpose_1 reshape_2 dims;
         transpose_2 = next_ref g + 1;
         (num3, h8) = PixelShuffle_add_transpose gen num2 g h6 reshape_2 transpose_2
     in
     rbind (list_get nds 2) (\<lambda>final_reshape.
       Inr (num3,
            g\<lparr>heap := PixelShuffle_rewire_final h8 transpose_2 final_reshape,
              next_ref := next_ref g + 2\<rparr>,
            [reshape_1, transpose_1, reshape_2, transpose_2, final_reshape])))))"

definition PixelShuffleFuser :: "(graph \<Rightarrow> string \<Rightarrow> string) \<Rightarrow> nat fuser" where
  "PixelShuffleFuser gen =
     \<lparr>num_nodes = 3, is_eligible = PixelShuffle_is_eligible, merge = PixelShuffle_merge gen\<rparr>"

text \<open>
  Modelled from the spec: \<^verbatim>\<open>Graph.get_unique_edge_name\<close> is not among the sources.
  It "returns a collision-free edge identifier scoped to the whole graph" (spec,
  section 4.1): here the name asked for when no node of the graph has it as an input or an
  output, and else the first of \<open>name_0\<close>, \<open>name_1\<close>, ... that is free.
\<close>

definition edge_names :: "graph \<Rightarrow> string list" where
  "edge_names g = concat (map (\<lambda>n. inputs (heap g n) @ outputs (heap g n)) (nodes g))"

definition Graph_get_unique_edge_name :: "graph \<Rightarrow> string \<Rightarrow> string" where
  "Graph_get_unique_edge_name g nm =
     (case find (\<lambda>c. c \<notin> set (edge_names g))
             (nm # map (\<lambda>i. nm @ ''_'' @ str i) [0..<length (edge_names g) + 1]) of
        Some c \<Rightarrow> c
      | None \<Rightarrow> nm)"

section \<open>ReshapeInitTensorFuser\<close>

text \<open>\<^verbatim>\<open>tuple(node.attrs["shape"])\<close> as the argument of \<^verbatim>\<open>reshape\<close>.\<close>

definition shape_tuple :: "attr \<Rightarrow> py_error + int list" where
  "shape_tuple a = (case a of AInts sh \<Rightarrow> Inr sh | _ \<Rightarrow> Inl TypeError)"

text \<open>The body of \<^verbatim>\<open>for child in node.children\<close> (lines 252 and 253).\<close>

definition attach_tensor :: "nat \<Rightarrow> string \<Rightarrow> tensor \<Rightarrow> (nat \<Rightarrow> node) \<Rightarrow> nat \<Rightarrow> py_error + (nat \<Rightarrow> node)" where
  "attach_tensor node output_name reshaped_tensor h child =
     rbind (list_remove (parents (h child)) node) (\<lambda>ps.
       let h1 = update_node h child (\<lambda>N. N\<lparr>parents := ps\<rparr>) in
       Inr (update_node h1 child (\<lambda>N. N\<lparr>input_tensors :=
              dict_set (input_tensors N) output_name reshaped_tensor\<rparr>)))"

text \<open>
  The body of \<^verbatim>\<open>for node in nodes\<close> (lines 235 to 253); the state is the heap and the
  list \<^verbatim>\<open>removed\<close>.  \<^verbatim>\<open>node.input_tensors.keys()[0]\<close> is Python 2: \<^verbatim>\<open>keys()\<close> is a
  list, and the dict has one key at that point.
\<close>

definition fold_reshape :: "(nat \<Rightarrow> node) \<times> nat list \<Rightarrow> nat \<Rightarrow> py_error + ((nat \<Rightarrow> node) \<times> nat list)" where
  "fold_reshape st node =
     (case st of (h, removed) \<Rightarrow>
        if op_type (h node) \<noteq> ''Reshape'' then Inr st
        else if length (input_tensors (h node)) \<noteq> 1 then Inr st
        else
          rbind (list_get (map fst (input_tensors (h node))) 0) (\<lambda>tensor_name.
          rbind (list_get (inputs (h node)) 0) (\<lambda>input0.
            if tensor_name \<noteq> input0 then Inr st
            else if length (parents (h node)) \<noteq> 0 then Inl AssertionError
            else
              rbind (list_get (outputs (h node)) 0) (\<lambda>output_name.
              rbind (dict_get (input_tensors (h node)) tensor_name) (\<lambda>tensor.
              rbind (dict_get (attrs (h node)) ''shape'') (\<lambda>shape_attr.
              rbind (shape_tuple shape_attr) (\<lambda>shape.
              rbind (np_reshape tensor shape) (\<lambda>reshaped_tensor.
              rbind (rfold (attach_tensor node output_name reshaped_tensor) h (children (h node))) (\<lambda>h'.
                Inr (h', removed @ [node]))))))))))"

definition ReshapeInitTensorFuser :: "graph \<Rightarrow> py_error + graph" where
  "ReshapeInitTensorFuser g =
     rbind (rfold fold_reshape (heap g, []) (nodes g)) (\<lambda>(h, removed).
       Inr (Graph (filter (\<lambda>node. node \<notin> set removed) (nodes g))
                  (graph_inputs g) (graph_outputs g) h (next_ref g)))"

section \<open>OutputRenamer\<close>

text \<open>Lines 300 to 305: the inputs of one child that are the old name get the new one.\<close>

definition rename_inputs :: "string \<Rightarrow> string \<Rightarrow> (nat \<Rightarrow> node) \<Rightarrow> nat \<Rightarrow> (nat \<Rightarrow> node)" where
  "rename_inputs output new h child =
     update_node h child (\<lambda>N. N\<lparr>inputs :=
       map (\<lambda>input. if input \<noteq> output then input else new) (inputs N)\<rparr>)"

text \<open>
  Lines 296 to 306 for one index \<open>i\<close> of \<^verbatim>\<open>node.outputs\<close>: the heap and the mapping
  after it.
\<close>

definition rename_output :: "(nat \<Rightarrow> node) \<times> (string, string) dict \<Rightarrow> nat \<Rightarrow> nat
                              \<Rightarrow> (nat \<Rightarrow> node) \<times> (string, string) dict" where
  "rename_output st node i =
     (case st of (h, mapping) \<Rightarrow>
        let output = outputs (h node) ! i in
        (case map_of mapping output of
           None \<Rightarrow> st
         | Some new \<Rightarrow>
             let h1 = update_node h node (\<lambda>N. N\<lparr>outputs := (outputs N)[i := new]\<rparr>);
                 h2 = foldl (rename_inputs output new) h1 (children (h1 node))
             in (h2, dict_del mapping output)))"

text \<open>
  \<^verbatim>\<open>for i in range(len(node.outputs))\<close> over the indices that are left, with the
  \<^verbatim>\<open>break\<close> of line 308 when the mapping has become empty.
\<close>

fun rename_outputs :: "(nat \<Rightarrow> node) \<times> (string, string) dict \<Rightarrow> nat \<Rightarrow> nat list
                         \<Rightarrow> (nat \<Rightarrow> node) \<times> (string, string) dict" where
  "rename_outputs st node [] = st"
| "rename_outputs st node (i # is) =
     (if \<not> dict_has (snd st) (outputs (fst st node) ! i) then rename_outputs st node is
      else
        (let st' = rename_output st node i in
         if length (snd st') = 0 then st' else rename_outputs st' node is))"

definition rename_node :: "(nat \<Rightarrow> node) \<times> (string, string) dict \<Rightarrow> nat
                            \<Rightarrow> (nat \<Rightarrow> node) \<times> (string, string) dict" where
  "rename_node st node = rename_outputs st node [0..<length (outputs (fst st node))]"

definition OutputRenamer :: "(string, string) dict \<Rightarrow> graph \<Rightarrow> graph" where
  "OutputRenamer mapping g = g\<lparr>heap := fst (foldl rename_node (heap g, mapping) (nodes g))\<rparr>"

section \<open>Predicates of the statements\<close>

text \<open>
  A strictly linear chain: every node but the first has the node before it as its only
  parent, and every node but the last has exactly one child.
\<close>

fun linear_chain :: "(nat \<Rightarrow> node) \<Rightarrow> nat list \<Rightarrow> bool" where
  "linear_chain h (x # y # ys) =
     (parents (h y) = [x] \<and> length (children (h x)) = 1 \<and> linear_chain h (y # ys))"
| "linear_chain h _ = True"

section \<open>Example graphs\<close>

definition empty_heap :: "nat \<Rightarrow> node" where
  "empty_heap = (\<lambda>_. Node [] [] [] [] [])"

text \<open>
  A node with three outputs, of which \<open>a\<close> feeds the second node and \<open>c\<close> is a graph
  output; the second node has the graph output \<open>y\<close> and an unused output \<open>z\<close>.
\<close>

definition dangling_example :: graph where
  "dangling_example =
     \<lparr>nodes = [0, 1],
      graph_inputs = [(''x'', [1, 4])],
      graph_outputs = [(''y'', [1, 2]), (''c'', [1, 2])],
      heap = empty_heap
        (0 := (Node ''split'' ''Split'' [] [''x''] [''a'', ''b'', ''c''])\<lparr>children := [1]\<rparr>,
         1 := (Node ''relu'' ''Relu'' [] [''a''] [''y'', ''z''])\<lparr>parents := [0]\<rparr>),
      next_ref = 2\<rparr>"

text \<open>
  The graph of the test \<^verbatim>\<open>test_pixel_shuffle\<close>: Reshape, Transpose, Reshape with scale
  factor 2 on an input of shape (1, 8, 2, 2).
\<close>

definition pixel_example :: graph where
  "pixel_example =
     \<lparr>nodes = [0, 1, 2],
      graph_inputs = [(''input0'', [1, 8, 2, 2])],
      graph_outputs = [(''output0'', [1, 2, 4, 4])],
      heap = empty_heap
        (0 := (Node ''node_0'' ''Reshape'' [(''shape'', AInts [1, 2, 2, 2, 2, 2])]
                 [''input0''] [''node0''])\<lparr>children := [1]\<rparr>,
         1 := (Node ''node_1'' ''Transpose'' [(''perm'', AInts [0, 1, 4, 2, 5, 3])]
                 [''node0''] [''node1''])\<lparr>parents := [0], children := [2]\<rparr>,
         2 := (Node ''node_2'' ''Reshape'' [(''shape'', AInts [1, 2, 4, 4])]
                 [''node1''] [''output0''])\<lparr>parents := [1]\<rparr>),
      next_ref = 3\<rparr>"

text \<open>The same graph with \<open>-1\<close> as the leading extent of the last shape.\<close>

definition pixel_example_batch :: graph where
  "pixel_example_batch =
     pixel_example\<lparr>heap := update_node (heap pixel_example) 2
        (\<lambda>N. N\<lparr>attrs := [(''shape'', AInts [- 1, 2, 4, 4])]\<rparr>)\<rparr>"

text \<open>
  The same chain with a first Reshape that has no shape attribute (from opset 5 on the
  shape of an ONNX Reshape is its second input).
\<close>

definition pixel_example_noshape :: graph where
  "pixel_example_noshape =
     pixel_example\<lparr>heap := update_node (heap pixel_example) 0 (\<lambda>N. N\<lparr>attrs := []\<rparr>)\<rparr>"

text \<open>
  The graphs of \<^verbatim>\<open>test_fuse_conv_without_bias\<close> and \<^verbatim>\<open>test_fuse_conv_with_bias\<close>, with
  two output channels: a Conv followed by Add(broadcast=1, axis=1).
\<close>

definition weight_example :: tensor where
  "weight_example = \<lparr>shape = [2, 1, 1, 1], data = [1, 2]\<rparr>"

definition bias_example :: tensor where
  "bias_example = \<lparr>shape = [2], data = [3, 4]\<rparr>"

definition conv_add_example :: graph where
  "conv_add_example =
     \<lparr>nodes = [0, 1],
      graph_inputs = [(''input0'', [1, 1, 4, 4])],
      graph_outputs = [(''output0'', [1, 2, 4, 4])],
      heap = empty_heap
        (0 := (Node ''conv'' ''Conv'' [(''kernel_shape'', AInts [1, 1])]
                 [''input0'', ''weight''] [''conv_output''])
              \<lparr>input_tensors := [(''weight'', weight_example)], children := [1]\<rparr>,
         1 := (Node ''add'' ''Add'' [(''broadcast'', AInt 1), (''axis'', AInt 1)]
                 [''conv_output'', ''bias''] [''output0''])
              \<lparr>input_tensors := [(''bias'', bias_example)], parents := [0]\<rparr>),
      next_ref = 2\<rparr>"

definition conv_bias_add_example :: graph where
  "conv_bias_add_example =
     conv_add_example\<lparr>heap := update_node (heap conv_add_example) 0
        (\<lambda>N. N\<lparr>inputs := [''input0'', ''weight'', ''bias''],
                input_tensors := [(''weight'', weight_example), (''bias'', bias_example)]\<rparr>)\<rparr>"

text \<open>
  The first graph again, but the second operand of the Add is the graph input \<open>bias\<close>
  and not an initializer: the Add has no literal tensor.
\<close>

definition conv_add_input_example :: graph where
  "conv_add_input_example =
     conv_add_example
       \<lparr>graph_inputs := [(''input0'', [1, 1, 4, 4]), (''bias'', [2])],
        heap := update_node (heap conv_add_example) 1 (\<lambda>N. N\<lparr>input_tensors := []\<rparr>)\<rparr>"


section \<open>Properties of DanglingOutputsRemover\<close>

definition used_output :: "string list \<Rightarrow> (nat \<Rightarrow> node) \<Rightarrow> nat \<Rightarrow> string \<Rightarrow> bool" where
  "used_output gout h n out = (out \<in> set gout \<or> out \<in> set (children_inputs h n))"

lemma dangling_node_outputs:
  "outputs (dangling_node gout h n m) =
     (if m = n then filter (used_output gout h n) (outputs (h n)) else outputs (h m))"
proof -
  have "filter (\<lambda>out. out \<notin> set (filter (\<lambda>output. output \<notin> set gout
            \<and> output \<notin> set (children_inputs h n)) (outputs (h n)))) (outputs (h n))
        = filter (used_output gout h n) (outputs (h n))"
    by (rule filter_cong) (auto simp: used_output_def)
  then show ?thesis by (simp add: dangling_node_def update_node_def Let_def)
qed

lemma dangling_node_inputs [simp]: "inputs (dangling_node gout h n m) = inputs (h m)"
  by (simp add: dangling_node_def update_node_def Let_def)

lemma dangling_node_children [simp]: "children (dangling_node gout h n m) = children (h m)"
  by (simp add: dangling_node_def update_node_def Let_def)

lemma dangling_node_used [simp]:
  "used_output gout (dangling_node gout' h n) m = used_output gout h m"
  by (simp add: used_output_def children_inputs_def fun_eq_iff)

lemma dangling_fold_used [simp]:
  "used_output gout (foldl (dangling_node gout') h ns) m = used_output gout h m"
  by (induction ns arbitrary: h) simp_all

lemma dangling_fold_outputs:
  "outputs (foldl (dangling_node gout) h ns m) =
     (if m \<in> set ns then filter (used_output gout h m) (outputs (h m)) else outputs (h m))"
proof (induction ns arbitrary: h)
  case Nil
  then show ?case by simp
next
  case (Cons n ns)
  show ?case
    by (simp add: Cons.IH dangling_node_outputs)
qed

lemma dangling_node_fixed:
  assumes "filter (used_output gout h n) (outputs (h n)) = outputs (h n)"
  shows "dangling_node gout h n = h"
proof
  fix m
  have "filter (\<lambda>out. out \<notin> set (filter (\<lambda>output. output \<notin> set gout
            \<and> output \<notin> set (children_inputs h n)) (outputs (h n)))) (outputs (h n))
        = filter (used_output gout h n) (outputs (h n))"
    by (rule filter_cong) (auto simp: used_output_def)
  with assms show "dangling_node gout h n m = h m"
    by (simp add: dangling_node_def update_node_def Let_def)
qed

lemma dangling_fold_fixed:
  assumes "\<forall>n \<in> set ns. filter (used_output gout h n) (outputs (h n)) = outputs (h n)"
  shows "foldl (dangling_node gout) h ns = h"
  using assms by (induction ns) (simp_all add: dangling_node_fixed)

text \<open>
  C9.  Dangling-output elimination is idempotent: on every graph, running the pass on its
  own result changes nothing.  After one pass the outputs of a node of the graph are
  its former outputs without those that are neither a declared graph output nor an
  input of one of its children.
\<close>

theorem DanglingOutputsRemover_idempotent:
  "DanglingOutputsRemover (DanglingOutputsRemover g) = DanglingOutputsRemover g
   \<and> (\<forall>n \<in> set (nodes g).
        outputs (heap (DanglingOutputsRemover g) n) =
          filter (\<lambda>out. out \<in> fst ` set (graph_outputs g)
                        \<or> (\<exists>child \<in> set (children (heap g n)). out \<in> set (inputs (heap g child))))
                 (outputs (heap g n)))"
proof
  let ?gout = "map fst (graph_outputs g)"
  let ?h1 = "foldl (dangling_node ?gout) (heap g) (nodes g)"
  have "\<forall>n \<in> set (nodes g).
          filter (used_output ?gout ?h1 n) (outputs (?h1 n)) = outputs (?h1 n)"
    by (simp add: dangling_fold_outputs)
  then have "foldl (dangling_node ?gout) ?h1 (nodes g) = ?h1"
    by (rule dangling_fold_fixed)
  then show "DanglingOutputsRemover (DanglingOutputsRemover g) = DanglingOutputsRemover g"
    by (simp add: DanglingOutputsRemover_def)
next
  show "\<forall>n \<in> set (nodes g).
        outputs (heap (DanglingOutputsRemover g) n) =
          filter (\<lambda>out. out \<in> fst ` set (graph_outputs g)
                        \<or> (\<exists>child \<in> set (children (heap g n)). out \<in> set (inputs (heap g child))))
                 (outputs (heap g n))"
    by (force simp: DanglingOutputsRemover_def dangling_fold_outputs used_output_def
        children_inputs_def intro!: filter_cong)
qed


theorem DanglingOutputsRemover_idempotent_witness:
  "DanglingOutputsRemover (DanglingOutputsRemover dangling_example)
     = DanglingOutputsRemover dangling_example
   \<and> outputs (heap (DanglingOutputsRemover dangling_example) 0) = [''a'', ''c'']
   \<and> outputs (heap (DanglingOutputsRemover dangling_example) 1) = [''y'']"
  using DanglingOutputsRemover_idempotent [of dangling_example]
  by (simp add: dangling_example_def empty_heap_def Node_def)

section \<open>Properties of the chain-matching engine\<close>

lemma length_one_iff: "(length xs = Suc 0) = (\<exists>x. xs = [x])"
  by (cases xs) auto

lemma collect_chain:
  "linear_chain h (n # w) \<Longrightarrow>
   \<exists>w' n'. collect h r n w = Inr w' \<and> linear_chain h (n' # w') \<and> length w' \<le> length w + r
      \<and> (\<exists>pre. w' = pre @ w \<and> (pre \<noteq> [] \<longrightarrow> last pre = n))"
proof (induction r arbitrary: n w)
  case 0
  then show ?case by auto
next
  case (Suc r)
  show ?case
  proof (cases "length (parents (h n)) = 1")
    case False
    with Suc.prems show ?thesis by auto
  next
    case True
    then obtain p where p: "parents (h n) = [p]" by (auto simp: length_one_iff)
    show ?thesis
    proof (cases "length (children (h p)) = 1")
      case False
      with p Suc.prems show ?thesis by (auto simp: get_only_parent_def rbind_def)
    next
      case c: True
      from p c Suc.prems have "linear_chain h (p # n # w)" by simp
      from Suc.IH [OF this] obtain w' n' pre where
        r: "collect h r p (n # w) = Inr w'" "linear_chain h (n' # w')"
           "length w' \<le> length (n # w) + r" "w' = pre @ n # w" "pre \<noteq> [] \<longrightarrow> last pre = p"
        by blast
      have "w' = (pre @ [n]) @ w" using r(4) by simp
      with r p c show ?thesis
        apply (simp add: get_only_parent_def rbind_def)
        apply (rule exI [of _ n'], simp)
        done
    qed
  qed
qed

lemma collect_start:
  "\<exists>w n'. collect h r node [] = Inr w \<and> linear_chain h (n' # w) \<and> length w \<le> r
      \<and> (w \<noteq> [] \<longrightarrow> last w = node)"
  using collect_chain [of h node "[]" r] by auto

lemma nodes_window_cases:
  "\<exists>w. collect h (k - 1) node [] = Inr w \<and> length w \<le> k - 1 \<and>
       (w = [] \<longrightarrow> nodes_window h k node = Inr []) \<and>
       (w \<noteq> [] \<longrightarrow> (\<exists>p. parents (h (hd w)) = [p] \<and> nodes_window h k node = Inr (p # w)
             \<and> linear_chain h (p # w) \<and> last w = node))"
proof -
  obtain w n' where w: "collect h (k - 1) node [] = Inr w" "linear_chain h (n' # w)"
      "length w \<le> k - 1" "w \<noteq> [] \<longrightarrow> last w = node"
    using collect_start [of h "k - 1" node] by blast
  show ?thesis
  proof (cases w)
    case Nil
    with w show ?thesis by (simp add: nodes_window_def rbind_def)
  next
    case (Cons x xs)
    with w have "parents (h x) = [n']" "length (children (h n')) = 1" by simp_all
    with w Cons show ?thesis
      by (simp add: nodes_window_def rbind_def list_get_def get_only_parent_def)
  qed
qed

text \<open>
  C1.  For every heap, window length \<open>k\<close> and node taken as the tail of a window: the walk
  of lines 24 to 34 never raises and collects at most \<open>k - 1\<close> nodes \<open>w\<close>.  When it
  collected none, the window stays empty.  When it collected some, the node at the front
  of \<open>w\<close> has exactly one parent \<open>p\<close> and the window becomes \<open>p # w\<close> (the test of line 39
  cannot fail there); the window is a strictly linear chain that ends in the node.  In
  particular a full prefix of \<open>k - 1\<close> nodes (\<open>k \<ge> 2\<close>) is always extended to \<open>k\<close> nodes and
  accepted, and whatever the window is, it is accepted if and only if its length is \<open>k\<close>.
\<close>

theorem chain_matching_window:
  "\<exists>w. collect h (k - 1) node [] = Inr w \<and> length w \<le> k - 1 \<and>
       (w = [] \<longrightarrow> nodes_window h k node = Inr []) \<and>
       (w \<noteq> [] \<longrightarrow> (\<exists>p. parents (h (hd w)) = [p] \<and> nodes_window h k node = Inr (p # w)
             \<and> linear_chain h (p # w) \<and> last w = node)) \<and>
       (2 \<le> k \<and> length w = k - 1 \<longrightarrow>
          (\<exists>p. parents (h (hd w)) = [p] \<and> match_window h k node = Inr (Some (p # w)))) \<and>
       (\<forall>w'. nodes_window h k node = Inr w' \<longrightarrow>
          match_window h k node = Inr (if length w' = k then Some w' else None))"
proof -
  obtain w where w: "collect h (k - 1) node [] = Inr w" "length w \<le> k - 1"
      "w = [] \<longrightarrow> nodes_window h k node = Inr []"
      "w \<noteq> [] \<longrightarrow> (\<exists>p. parents (h (hd w)) = [p] \<and> nodes_window h k node = Inr (p # w)
             \<and> linear_chain h (p # w) \<and> last w = node)"
    using nodes_window_cases [of h k node] by blast
  have full: "\<exists>p. parents (h (hd w)) = [p] \<and> match_window h k node = Inr (Some (p # w))"
    if k: "2 \<le> k" "length w = k - 1"
  proof -
    from k have "w \<noteq> []" by auto
    with w(4) obtain p where p: "parents (h (hd w)) = [p]" "nodes_window h k node = Inr (p # w)"
      by blast
    from k have "length (p # w) = k" by simp
    with p show ?thesis by (auto simp: match_window_def rbind_def)
  qed
  have acc: "\<forall>w'. nodes_window h k node = Inr w' \<longrightarrow>
          match_window h k node = Inr (if length w' = k then Some w' else None)"
    by (simp add: match_window_def rbind_def)
  from w full acc show ?thesis by blast
qed

theorem chain_matching_window_witness:
  "collect (heap pixel_example) (3 - 1) 2 [] = Inr [1, 2]
   \<and> nodes_window (heap pixel_example) 3 2 = Inr [0, 1, 2]
   \<and> match_window (heap pixel_example) 3 2 = Inr (Some [0, 1, 2])
   \<and> match_window (heap pixel_example) 3 1 = Inr None"
proof -
  have c: "collect (heap pixel_example) (3 - 1) 2 [] = Inr [1, 2]"
    by (simp add: pixel_example_def empty_heap_def Node_def numeral_2_eq_2
        get_only_parent_def rbind_def)
  have n1: "nodes_window (heap pixel_example) 3 1 = Inr [0, 1]"
    by (simp add: pixel_example_def empty_heap_def Node_def numeral_2_eq_2 nodes_window_def
        list_get_def get_only_parent_def rbind_def)
  from chain_matching_window [of "heap pixel_example" 3 2] c n1
    chain_matching_window [of "heap pixel_example" 3 1]
  show ?thesis
    by (auto simp: pixel_example_def empty_heap_def Node_def)
qed

section \<open>Properties of PixelShuffleFuser\<close>

lemma length6: "(length xs = 6) = (\<exists>a b c d e f. xs = [a, b, c, d, e, f])"
  by (auto simp: length_Suc_conv eval_nat_numeral)

lemma length4: "(length xs = 4) = (\<exists>a b c d. xs = [a, b, c, d])"
  by (auto simp: length_Suc_conv eval_nat_numeral)

lemma PixelShuffle_is_eligible_unfold:
  "PixelShuffle_is_eligible g [n0, n1, n2] =
     (if op_type (heap g n0) \<noteq> ''Reshape'' then Inr False
      else if op_type (heap g n1) \<noteq> ''Transpose'' then Inr False
      else if op_type (heap g n2) \<noteq> ''Reshape'' then Inr False
      else case map_of (attrs (heap g n0)) ''shape'' of
        None \<Rightarrow> Inl KeyError
      | Some (AInt _) \<Rightarrow> Inl TypeError
      | Some (AStr _) \<Rightarrow> Inr False
      | Some (AInts sh) \<Rightarrow>
          if length sh \<noteq> 6 then Inr False
          else if sh ! 0 \<noteq> 1 \<or> sh ! 2 \<noteq> sh ! 3 then Inr False
          else if map_of (attrs (heap g n1)) ''perm'' \<noteq> Some (AInts [0, 1, 4, 2, 5, 3])
          then Inr False
          else case map_of (attrs (heap g n2)) ''shape'' of
            None \<Rightarrow> Inl KeyError
          | Some (AInt _) \<Rightarrow> Inl TypeError
          | Some (AStr _) \<Rightarrow> Inr False
          | Some (AInts sh2) \<Rightarrow>
              Inr (length sh2 = 4 \<and> sh ! 1 = sh2 ! 1 \<and> sh ! 4 * sh ! 2 = sh2 ! 2
                   \<and> sh ! 5 * sh ! 2 = sh2 ! 3))"
  by (simp add: PixelShuffle_is_eligible_def rbind_def list_get_def dict_get_def
      dict_get_default_def Let_def split: option.splits attr.splits)

lemma PixelShuffle_eligible_window:
  "(PixelShuffle_is_eligible g [n0, n1, n2] = Inr True) =
     (op_type (heap g n0) = ''Reshape'' \<and> op_type (heap g n1) = ''Transpose''
      \<and> op_type (heap g n2) = ''Reshape''
      \<and> (\<exists>C s H W d.
            map_of (attrs (heap g n0)) ''shape'' = Some (AInts [1, C, s, s, H, W])
          \<and> map_of (attrs (heap g n1)) ''perm'' = Some (AInts [0, 1, 4, 2, 5, 3])
          \<and> map_of (attrs (heap g n2)) ''shape'' = Some (AInts [d, C, H * s, W * s])))"
  (is "?L = ?R")
proof
  assume L: ?L
  then have ops: "op_type (heap g n0) = ''Reshape''" "op_type (heap g n1) = ''Transpose''"
      "op_type (heap g n2) = ''Reshape''"
    by (simp_all add: PixelShuffle_is_eligible_unfold split: if_splits)
  from L ops obtain sh where sh: "map_of (attrs (heap g n0)) ''shape'' = Some (AInts sh)"
    by (auto simp: PixelShuffle_is_eligible_unfold split: option.splits attr.splits)
  from L ops sh have len: "length sh = 6" and eqs: "sh ! 0 = 1" "sh ! 2 = sh ! 3"
    and perm: "map_of (attrs (heap g n1)) ''perm'' = Some (AInts [0, 1, 4, 2, 5, 3])"
    by (simp_all add: PixelShuffle_is_eligible_unfold split: if_splits)
  from L ops sh len eqs perm obtain sh2 where
    sh2: "map_of (attrs (heap g n2)) ''shape'' = Some (AInts sh2)"
    by (auto simp: PixelShuffle_is_eligible_unfold split: option.splits attr.splits)
  from L ops sh len eqs perm sh2 have r: "length sh2 = 4" "sh ! 1 = sh2 ! 1"
      "sh ! 4 * sh ! 2 = sh2 ! 2" "sh ! 5 * sh ! 2 = sh2 ! 3"
    by (simp_all add: PixelShuffle_is_eligible_unfold)
  from len obtain a C s s' H W where sh_eq: "sh = [a, C, s, s', H, W]"
    by (auto simp: length6)
  from r(1) obtain d c2 h2 w2 where sh2_eq: "sh2 = [d, c2, h2, w2]"
    by (auto simp: length4)
  from eqs r sh_eq sh2_eq have "sh = [1, C, s, s, H, W]" "sh2 = [d, C, H * s, W * s]"
    by simp_all
  with ops sh perm sh2 show ?R by blast
next
  assume ?R
  then show ?L
    by (auto simp: PixelShuffle_is_eligible_unfold)
qed

text \<open>
  C2 (as amended).  \<^verbatim>\<open>PixelShuffleFuser.is_eligible\<close> returns True on a window of three
  nodes if and only if the nodes are Reshape, Transpose, Reshape, the shape attribute of
  the first is a list \<open>[1, C, s, s, H, W]\<close>, the perm attribute of the second is exactly
  \<open>[0, 1, 4, 2, 5, 3]\<close>, and the shape attribute of the last is a list of four integers
  \<open>[d, C, H * s, W * s]\<close>.  The leading extent \<open>d\<close> of the last shape is not looked at.
\<close>

theorem PixelShuffle_is_eligible_iff:
  "(PixelShuffle_is_eligible g [n0, n1, n2] = Inr True) =
     (op_type (heap g n0) = ''Reshape'' \<and> op_type (heap g n1) = ''Transpose''
      \<and> op_type (heap g n2) = ''Reshape''
      \<and> (\<exists>C s H W d.
            map_of (attrs (heap g n0)) ''shape'' = Some (AInts [1, C, s, s, H, W])
          \<and> map_of (attrs (heap g n1)) ''perm'' = Some (AInts [0, 1, 4, 2, 5, 3])
          \<and> map_of (attrs (heap g n2)) ''shape'' = Some (AInts [d, C, H * s, W * s])))"
  by (rule PixelShuffle_eligible_window)

theorem PixelShuffle_is_eligible_iff_witness:
  "PixelShuffle_is_eligible pixel_example [0, 1, 2] = Inr True
   \<and> map_of (attrs (heap pixel_example 2)) ''shape'' = Some (AInts [1, 2, 2 * 2, 2 * 2])"
proof -
  have "map_of (attrs (heap pixel_example 0)) ''shape'' = Some (AInts [1, 2, 2, 2, 2, 2])
      \<and> map_of (attrs (heap pixel_example 1)) ''perm'' = Some (AInts [0, 1, 4, 2, 5, 3])
      \<and> map_of (attrs (heap pixel_example 2)) ''shape'' = Some (AInts [1, 2, 2 * 2, 2 * 2])"
    by (simp add: pixel_example_def empty_heap_def Node_def)
  moreover have "op_type (heap pixel_example 0) = ''Reshape''
      \<and> op_type (heap pixel_example 1) = ''Transpose''
      \<and> op_type (heap pixel_example 2) = ''Reshape''"
    by (simp add: pixel_example_def empty_heap_def Node_def)
  ultimately show ?thesis
    using PixelShuffle_is_eligible_iff [of pixel_example 0 1 2] by blast
qed

text \<open>
  The claim as stated fails: the window below is eligible although the leading extent of
  its last shape is \<open>-1\<close>, not 1.
\<close>

theorem PixelShuffle_is_eligible_counterexample:
  "PixelShuffle_is_eligible pixel_example_batch [0, 1, 2] = Inr True
   \<and> map_of (attrs (heap pixel_example_batch 2)) ''shape'' = Some (AInts [- 1, 2, 4, 4])"
  by (simp add: PixelShuffle_is_eligible_unfold pixel_example_batch_def pixel_example_def
      empty_heap_def Node_def update_node_def)


lemma map_of_dict_set [simp]: "map_of (dict_set d k v) = (map_of d)(k \<mapsto> v)"
  by (induction d) (auto simp: fun_eq_iff)

lemma update_node_apply: "update_node h n f m = (if m = n then f (h n) else h m)"
  by (simp add: update_node_def)

lemma add_child_apply:
  "self \<noteq> child \<Longrightarrow> add_child h self child m =
     (if m = self then (h self)\<lparr>children := children (h self) @ [child]\<rparr>
      else if m = child then
        (if self \<in> set (parents (h child)) then h child
         else (h child)\<lparr>parents := parents (h child) @ [self]\<rparr>)
      else h m)"
  by (simp add: add_child_def Let_def update_node_def)

lemma PixelShuffle_rewrite_head_result:
  assumes sh: "map_of (attrs (heap g r1)) ''shape'' = Some (AInts [a, C, s, s', H, W])"
    and d: "r1 \<noteq> t1"
  shows "\<exists>h3. PixelShuffle_rewrite_head gen num g r1 t1 =
           Inr (num + 1,
                (heap g)
                  (r1 := (heap g r1)\<lparr>attrs := dict_set (attrs (heap g r1)) ''shape''
                                       (AInts [C, s * s, H, W])\<rparr>,
                   t1 := (heap g t1)\<lparr>attrs := dict_set (attrs (heap g t1)) ''perm''
                                       (AInts [0, 2, 1, 3]),
                                     outputs := [gen (g\<lparr>heap := h3\<rparr>)
                                       (''pixel_shuffle_transpose_'' @ str (num + 1))],
                                     children := []\<rparr>),
                C, s, H, W)"
proof -
  define h3 where "h3 = update_node (update_node (update_node (heap g) t1
      (\<lambda>N. N\<lparr>children := []\<rparr>)) r1 (\<lambda>N. N\<lparr>attrs :=
                 dict_set (attrs N) ''shape'' (AInts [C, s * s, H, W])\<rparr>)) t1
      (\<lambda>N. N\<lparr>attrs := dict_set (attrs N) ''perm'' (AInts [0, 2, 1, 3])\<rparr>)"
  have "PixelShuffle_rewrite_head gen num g r1 t1 =
          Inr (num + 1, update_node h3 t1 (\<lambda>N. N\<lparr>outputs := [gen (g\<lparr>heap := h3\<rparr>)
                                       (''pixel_shuffle_transpose_'' @ str (num + 1))]\<rparr>),
               C, s, H, W)"
    using sh d
    by (simp add: PixelShuffle_rewrite_head_def rbind_def dict_get_def shape_entries_def
        list_get_def Let_def PixelShuffle_get_unique_edge_name_def update_node_apply h3_def)
  moreover have "update_node h3 t1 (\<lambda>N. N\<lparr>outputs := [e]\<rparr>) =
      (heap g)
                  (r1 := (heap g r1)\<lparr>attrs := dict_set (attrs (heap g r1)) ''shape''
                                       (AInts [C, s * s, H, W])\<rparr>,
                   t1 := (heap g t1)\<lparr>attrs := dict_set (attrs (heap g t1)) ''perm''
                                       (AInts [0, 2, 1, 3]),
                                     outputs := [e], children := []\<rparr>)" for e
    using d by (auto simp: fun_eq_iff update_node_apply h3_def)
  ultimately show ?thesis by auto
qed

lemma PixelShuffle_add_reshape_result:
  assumes "t1 \<noteq> r2"
  shows "PixelShuffle_add_reshape gen num g h t1 r2 (C, s, H, W) =
           (num + 1,
            h(t1 := (h t1)\<lparr>children := children (h t1) @ [r2]\<rparr>,
              r2 := (Node ''pixel_shuffle_reshape'' ''Reshape''
                      [(''shape'', AInts [C * H, s, s, W])] (outputs (h t1))
                      [gen (g\<lparr>heap := h\<rparr>) (''pixel_shuffle_reshape_'' @ str (num + 1))])
                    \<lparr>parents := [t1]\<rparr>))"
  using assms
  by (auto simp: PixelShuffle_add_reshape_def PixelShuffle_get_unique_edge_name_def Let_def
      fun_eq_iff add_child_apply update_node_apply Node_def)

lemma PixelShuffle_add_transpose_result:
  assumes "r2 \<noteq> t2"
  shows "PixelShuffle_add_transpose gen num g h r2 t2 =
           (num + 1,
            h(r2 := (h r2)\<lparr>children := children (h r2) @ [t2]\<rparr>,
              t2 := (Node ''pixel_shuffle_transpose'' ''Transpose''
                      [(''perm'', AInts [0, 1, 3, 2])] (outputs (h r2))
                      [gen (g\<lparr>heap := h\<rparr>) (''pixel_shuffle_transpose_'' @ str (num + 1))])
                    \<lparr>parents := [r2]\<rparr>))"
  using assms
  by (auto simp: PixelShuffle_add_transpose_def PixelShuffle_get_unique_edge_name_def Let_def
      fun_eq_iff add_child_apply update_node_apply Node_def)

lemma PixelShuffle_rewire_final_result:
  assumes "t2 \<noteq> fr"
  shows "PixelShuffle_rewire_final h t2 fr =
           h(t2 := (h t2)\<lparr>children := children (h t2) @ [fr]\<rparr>,
             fr := (h fr)\<lparr>inputs := outputs (h t2), parents := [t2]\<rparr>)"
  using assms
  by (auto simp: PixelShuffle_rewire_final_def Let_def fun_eq_iff add_child_apply
      update_node_apply)


lemma PixelShuffle_eligible_shapes:
  assumes "PixelShuffle_is_eligible g [n0, n1, n2] = Inr True"
  shows "\<exists>C s H W d.
            map_of (attrs (heap g n0)) ''shape'' = Some (AInts [1, C, s, s, H, W])
          \<and> map_of (attrs (heap g n1)) ''perm'' = Some (AInts [0, 1, 4, 2, 5, 3])
          \<and> map_of (attrs (heap g n2)) ''shape'' = Some (AInts [d, C, H * s, W * s])"
  using assms by (simp add: PixelShuffle_eligible_window)

lemma PixelShuffle_merge_result:
  assumes sh: "map_of (attrs (heap g r1)) ''shape'' = Some (AInts [a, C, s, s', H, W])"
    and d: "r1 \<noteq> t1" "r1 \<noteq> fr" "t1 \<noteq> fr"
    and fresh: "r1 < next_ref g" "t1 < next_ref g" "fr < next_ref g"
  shows "\<exists>h1 h2 h3 e1 e2 e3 g'.
           e1 = gen (g\<lparr>heap := h1\<rparr>) (''pixel_shuffle_transpose_'' @ str (num + 1))
         \<and> e2 = gen (g\<lparr>heap := h2\<rparr>) (''pixel_shuffle_reshape_'' @ str (num + 2))
         \<and> e3 = gen (g\<lparr>heap := h3\<rparr>) (''pixel_shuffle_transpose_'' @ str (num + 3))
         \<and> PixelShuffle_merge gen num g [r1, t1, fr]
             = Inr (num + 3, g', [r1, t1, next_ref g, next_ref g + 1, fr])
         \<and> nodes g' = nodes g \<and> next_ref g' = next_ref g + 2
         \<and> heap g' = (heap g)
              (r1 := (heap g r1)\<lparr>attrs := dict_set (attrs (heap g r1)) ''shape''
                                   (AInts [C, s * s, H, W])\<rparr>,
               t1 := (heap g t1)\<lparr>attrs := dict_set (attrs (heap g t1)) ''perm''
                                   (AInts [0, 2, 1, 3]),
                                 outputs := [e1], children := [next_ref g]\<rparr>,
               next_ref g := (Node ''pixel_shuffle_reshape'' ''Reshape''
                        [(''shape'', AInts [C * H, s, s, W])] [e1] [e2])
                     \<lparr>parents := [t1], children := [next_ref g + 1]\<rparr>,
               next_ref g + 1 := (Node ''pixel_shuffle_transpose'' ''Transpose''
                        [(''perm'', AInts [0, 1, 3, 2])] [e2] [e3])
                     \<lparr>parents := [next_ref g], children := [fr]\<rparr>,
               fr := (heap g fr)\<lparr>inputs := [e3], parents := [next_ref g + 1]\<rparr>)"
proof -
  define r2 where "r2 = next_ref g"
  define t2 where "t2 = Suc r2"
  from fresh have ne: "r1 \<noteq> r2" "t1 \<noteq> r2" "fr \<noteq> r2" "r1 \<noteq> t2" "t1 \<noteq> t2" "fr \<noteq> t2" "r2 \<noteq> t2"
    by (simp_all add: r2_def t2_def)
  from PixelShuffle_rewrite_head_result [OF sh d(1), of gen num] obtain h1 where
    A: "PixelShuffle_rewrite_head gen num g r1 t1 =
           Inr (num + 1,
                (heap g)
                  (r1 := (heap g r1)\<lparr>attrs := dict_set (attrs (heap g r1)) ''shape''
                                       (AInts [C, s * s, H, W])\<rparr>,
                   t1 := (heap g t1)\<lparr>attrs := dict_set (attrs (heap g t1)) ''perm''
                                       (AInts [0, 2, 1, 3]),
                                     outputs := [gen (g\<lparr>heap := h1\<rparr>)
                                       (''pixel_shuffle_transpose_'' @ str (num + 1))],
                                     children := []\<rparr>),
                C, s, H, W)"
    by blast
  define e1 where "e1 = gen (g\<lparr>heap := h1\<rparr>) (''pixel_shuffle_transpose_'' @ str (num + 1))"
  define hA where "hA = (heap g)
                  (r1 := (heap g r1)\<lparr>attrs := dict_set (attrs (heap g r1)) ''shape''
                                       (AInts [C, s * s, H, W])\<rparr>,
                   t1 := (heap g t1)\<lparr>attrs := dict_set (attrs (heap g t1)) ''perm''
                                       (AInts [0, 2, 1, 3]),
                                     outputs := [e1], children := []\<rparr>)"
  have A': "PixelShuffle_rewrite_head gen num g r1 t1 = Inr (Suc num, hA, C, s, H, W)"
    using A by (simp add: hA_def e1_def)
  define e2 where "e2 = gen (g\<lparr>heap := hA\<rparr>) (''pixel_shuffle_reshape_'' @ str (num + 2))"
  define hB where "hB = hA(t1 := (hA t1)\<lparr>children := children (hA t1) @ [r2]\<rparr>,
              r2 := (Node ''pixel_shuffle_reshape'' ''Reshape''
                      [(''shape'', AInts [C * H, s, s, W])] (outputs (hA t1)) [e2])
                    \<lparr>parents := [t1]\<rparr>)"
  have B: "PixelShuffle_add_reshape gen (Suc num) g hA t1 r2 (C, s, H, W) = (Suc (Suc num), hB)"
    using PixelShuffle_add_reshape_result [OF ne(2), of gen "num + 1" g hA C s H W]
    by (simp add: hB_def e2_def eval_nat_numeral)
  define e3 where "e3 = gen (g\<lparr>heap := hB\<rparr>) (''pixel_shuffle_transpose_'' @ str (num + 3))"
  define hC where "hC = hB(r2 := (hB r2)\<lparr>children := children (hB r2) @ [t2]\<rparr>,
              t2 := (Node ''pixel_shuffle_transpose'' ''Transpose''
                      [(''perm'', AInts [0, 1, 3, 2])] (outputs (hB r2)) [e3])
                    \<lparr>parents := [r2]\<rparr>)"
  have C: "PixelShuffle_add_transpose gen (Suc (Suc num)) g hB r2 t2
             = (Suc (Suc (Suc num)), hC)"
    using PixelShuffle_add_transpose_result [OF ne(7), of gen "num + 2" g hB]
    by (simp add: hC_def e3_def eval_nat_numeral)
  define hD where "hD = hC(t2 := (hC t2)\<lparr>children := children (hC t2) @ [fr]\<rparr>,
             fr := (hC fr)\<lparr>inputs := outputs (hC t2), parents := [t2]\<rparr>)"
  have D: "PixelShuffle_rewire_final hC t2 fr = hD"
    using PixelShuffle_rewire_final_result [of t2 fr hC] ne by (simp add: hD_def)
  have m: "PixelShuffle_merge gen num g [r1, t1, fr]
             = Inr (num + 3, g\<lparr>heap := hD, next_ref := next_ref g + 2\<rparr>, [r1, t1, r2, t2, fr])"
    using B C D
    by (simp add: PixelShuffle_merge_def rbind_def list_get_def A' Let_def
        r2_def [symmetric] t2_def)
  have hp: "hD = (heap g)
              (r1 := (heap g r1)\<lparr>attrs := dict_set (attrs (heap g r1)) ''shape''
                                   (AInts [C, s * s, H, W])\<rparr>,
               t1 := (heap g t1)\<lparr>attrs := dict_set (attrs (heap g t1)) ''perm''
                                   (AInts [0, 2, 1, 3]),
                                 outputs := [e1], children := [r2]\<rparr>,
               r2 := (Node ''pixel_shuffle_reshape'' ''Reshape''
                        [(''shape'', AInts [C * H, s, s, W])] [e1] [e2])
                     \<lparr>parents := [t1], children := [t2]\<rparr>,
               t2 := (Node ''pixel_shuffle_transpose'' ''Transpose''
                        [(''perm'', AInts [0, 1, 3, 2])] [e2] [e3])
                     \<lparr>parents := [r2], children := [fr]\<rparr>,
               fr := (heap g fr)\<lparr>inputs := [e3], parents := [t2]\<rparr>)"
    using d ne by (auto simp: fun_eq_iff hD_def hC_def hB_def hA_def Node_def)
  have m': "PixelShuffle_merge gen num g [r1, t1, fr]
             = Inr (num + 3, g\<lparr>heap := hD, next_ref := next_ref g + 2\<rparr>,
                    [r1, t1, next_ref g, next_ref g + 1, fr])"
    using m by (simp add: r2_def t2_def)
  have hp': "heap (g\<lparr>heap := hD, next_ref := next_ref g + 2\<rparr>) = (heap g)
              (r1 := (heap g r1)\<lparr>attrs := dict_set (attrs (heap g r1)) ''shape''
                                   (AInts [C, s * s, H, W])\<rparr>,
               t1 := (heap g t1)\<lparr>attrs := dict_set (attrs (heap g t1)) ''perm''
                                   (AInts [0, 2, 1, 3]),
                                 outputs := [e1], children := [next_ref g]\<rparr>,
               next_ref g := (Node ''pixel_shuffle_reshape'' ''Reshape''
                        [(''shape'', AInts [C * H, s, s, W])] [e1] [e2])
                     \<lparr>parents := [t1], children := [next_ref g + 1]\<rparr>,
               next_ref g + 1 := (Node ''pixel_shuffle_transpose'' ''Transpose''
                        [(''perm'', AInts [0, 1, 3, 2])] [e2] [e3])
                     \<lparr>parents := [next_ref g], children := [fr]\<rparr>,
               fr := (heap g fr)\<lparr>inputs := [e3], parents := [next_ref g + 1]\<rparr>)"
    using hp by (simp add: r2_def t2_def)
  show ?thesis
    apply (rule exI [of _ h1], rule exI [of _ hA], rule exI [of _ hB],
        rule exI [of _ e1], rule exI [of _ e2], rule exI [of _ e3],
        rule exI [of _ "g\<lparr>heap := hD, next_ref := next_ref g + 2\<rparr>"])
    apply (intro conjI)
          apply (rule e1_def)
         apply (rule e2_def)
        apply (rule e3_def)
       apply (rule m')
      apply simp
     apply simp
    apply (rule hp')
    done
qed


text \<open>
  C3 (as amended).  On every eligible window \<open>[r1, t1, fr]\<close> of three different nodes
  (all references in use lie below \<open>next_ref\<close>), \<^verbatim>\<open>PixelShuffleFuser.merge\<close> returns the
  five nodes: \<open>r1\<close> with shape \<open>[C, s * s, H, W]\<close>; \<open>t1\<close> with perm \<open>[0, 2, 1, 3]\<close>; a new
  Reshape with shape \<open>[C * H, s, s, W]\<close>; a new Transpose with perm \<open>[0, 1, 3, 2]\<close>; and the
  last node \<open>fr\<close>, whose attributes (shape \<open>[d, C, H * s, W * s]\<close>) are left as they are.
  The last four are wired as a parent/child chain in that order, and \<open>r1\<close> keeps the
  links it has.  The three edges after \<open>t1\<close> carry three names obtained from the unique
  name generator, asked for with the counter values \<open>num + 1\<close>, \<open>num + 2\<close>, \<open>num + 3\<close>;
  the counter of the fuser ends at \<open>num + 3\<close>.  No other node changes.
\<close>

theorem PixelShuffle_merge_chain:
  assumes elig: "PixelShuffle_is_eligible g [r1, t1, fr] = Inr True"
    and dist: "distinct [r1, t1, fr]"
    and fresh: "r1 < next_ref g" "t1 < next_ref g" "fr < next_ref g"
  shows "\<exists>C s H W d h1 h2 h3 e1 e2 e3 g'.
           map_of (attrs (heap g r1)) ''shape'' = Some (AInts [1, C, s, s, H, W])
         \<and> map_of (attrs (heap g fr)) ''shape'' = Some (AInts [d, C, H * s, W * s])
         \<and> e1 = gen (g\<lparr>heap := h1\<rparr>) (''pixel_shuffle_transpose_'' @ str (num + 1))
         \<and> e2 = gen (g\<lparr>heap := h2\<rparr>) (''pixel_shuffle_reshape_'' @ str (num + 2))
         \<and> e3 = gen (g\<lparr>heap := h3\<rparr>) (''pixel_shuffle_transpose_'' @ str (num + 3))
         \<and> PixelShuffle_merge gen num g [r1, t1, fr]
             = Inr (num + 3, g', [r1, t1, next_ref g, next_ref g + 1, fr])
         \<and> nodes g' = nodes g \<and> next_ref g' = next_ref g + 2
         \<and> heap g' = (heap g)
              (r1 := (heap g r1)\<lparr>attrs := dict_set (attrs (heap g r1)) ''shape''
                                   (AInts [C, s * s, H, W])\<rparr>,
               t1 := (heap g t1)\<lparr>attrs := dict_set (attrs (heap g t1)) ''perm''
                                   (AInts [0, 2, 1, 3]),
                                 outputs := [e1], children := [next_ref g]\<rparr>,
               next_ref g := (Node ''pixel_shuffle_reshape'' ''Reshape''
                        [(''shape'', AInts [C * H, s, s, W])] [e1] [e2])
                     \<lparr>parents := [t1], children := [next_ref g + 1]\<rparr>,
               next_ref g + 1 := (Node ''pixel_shuffle_transpose'' ''Transpose''
                        [(''perm'', AInts [0, 1, 3, 2])] [e2] [e3])
                     \<lparr>parents := [next_ref g], children := [fr]\<rparr>,
               fr := (heap g fr)\<lparr>inputs := [e3], parents := [next_ref g + 1]\<rparr>)"
proof -
  from dist have d: "r1 \<noteq> t1" "r1 \<noteq> fr" "t1 \<noteq> fr" by simp_all
  from PixelShuffle_eligible_shapes [OF elig] obtain C s H W dd where
    sh: "map_of (attrs (heap g r1)) ''shape'' = Some (AInts [1, C, s, s, H, W])"
    and sh2: "map_of (attrs (heap g fr)) ''shape'' = Some (AInts [dd, C, H * s, W * s])"
    by blast
  from PixelShuffle_merge_result [OF sh d fresh, of gen num] sh sh2
  show ?thesis by blast
qed


theorem PixelShuffle_merge_chain_witness:
  "PixelShuffle_is_eligible pixel_example [0, 1, 2] = Inr True
   \<and> (\<exists>g'. PixelShuffle_merge Graph_get_unique_edge_name 0 pixel_example [0, 1, 2]
               = Inr (3, g', [0, 1, 3, 4, 2])
          \<and> nodes g' = [0, 1, 2] \<and> next_ref g' = 5)"
proof -
  have elig: "PixelShuffle_is_eligible pixel_example [0, 1, 2] = Inr True"
    by (simp add: PixelShuffle_is_eligible_unfold pixel_example_def empty_heap_def Node_def)
  have nr: "next_ref pixel_example = 3" "nodes pixel_example = [0, 1, 2]"
    by (simp_all add: pixel_example_def)
  have "distinct [0, 1, 2 :: nat]" "0 < next_ref pixel_example" "1 < next_ref pixel_example"
      "2 < next_ref pixel_example"
    by (simp_all add: nr)
  from PixelShuffle_merge_chain [OF elig this, of Graph_get_unique_edge_name 0] elig nr
  show ?thesis by auto
qed

lemma str_digits: "str (Suc 0) = ''1''" "str (Suc (Suc 0)) = ''2''" "str (Suc (Suc (Suc 0))) = ''3''"
  by (simp_all add: str.simps)


text \<open>
  The claim as stated fails: on the window below the merge asks the generator for three
  names, not two (the counter ends at 3 and the three names differ), and the last
  Reshape keeps its shape \<open>[-1, 2, 4, 4]\<close>.
\<close>

theorem PixelShuffle_merge_counterexample:
  "(case PixelShuffle_merge Graph_get_unique_edge_name 0 pixel_example_batch [0, 1, 2] of
      Inl _ \<Rightarrow> False
    | Inr (num, g', merged) \<Rightarrow>
        num = 3 \<and> merged = [0, 1, 3, 4, 2]
      \<and> outputs (heap g' 1) = [''pixel_shuffle_transpose_1'']
      \<and> outputs (heap g' 3) = [''pixel_shuffle_reshape_2'']
      \<and> outputs (heap g' 4) = [''pixel_shuffle_transpose_3'']
      \<and> map_of (attrs (heap g' 2)) ''shape'' = Some (AInts [- 1, 2, 4, 4]))"
  by (simp add: PixelShuffle_merge_def PixelShuffle_rewrite_head_def PixelShuffle_add_reshape_def
      PixelShuffle_add_transpose_def PixelShuffle_rewire_final_def rbind_def list_get_def
      dict_get_def shape_entries_def Let_def PixelShuffle_get_unique_edge_name_def
      Graph_get_unique_edge_name_def edge_names_def update_node_apply add_child_apply
      pixel_example_batch_def pixel_example_def empty_heap_def Node_def str_digits)

text \<open>
  C4.  The claim (a missing attribute makes a window not eligible, and the check never
  raises) does not hold of the code: on the chain below, whose first Reshape has no
  shape attribute, the window of the last node is matched, \<^verbatim>\<open>is_eligible\<close> raises
  KeyError at line 329 and the whole pass ends with that exception.
\<close>

theorem PixelShuffle_is_eligible_raises:
  "match_window (heap pixel_example_noshape) 3 2 = Inr (Some [0, 1, 2])
   \<and> PixelShuffle_is_eligible pixel_example_noshape [0, 1, 2] = Inl KeyError
   \<and> NodesFuser_call (PixelShuffleFuser gen) 0 pixel_example_noshape = Inl KeyError"
proof -
  note ex = pixel_example_noshape_def update_node_def pixel_example_def empty_heap_def Node_def
  have w0: "match_window (heap pixel_example_noshape) 3 0 = Inr None"
    by (simp add: match_window_def nodes_window_def numeral_2_eq_2 rbind_def ex)
  have w1: "match_window (heap pixel_example_noshape) 3 (Suc 0) = Inr None"
    by (simp add: match_window_def nodes_window_def numeral_2_eq_2 rbind_def
        get_only_parent_def list_get_def ex)
  have w2: "match_window (heap pixel_example_noshape) 3 2 = Inr (Some [0, 1, 2])"
    by (simp add: match_window_def nodes_window_def numeral_2_eq_2 rbind_def
        get_only_parent_def list_get_def ex)
  have e: "PixelShuffle_is_eligible pixel_example_noshape [0, 1, 2] = Inl KeyError"
    by (simp add: PixelShuffle_is_eligible_unfold ex)
  have "nodes pixel_example_noshape = [0, 1, 2]"
    by (simp add: pixel_example_noshape_def pixel_example_def)
  then have "NodesFuser_call (PixelShuffleFuser gen) 0 pixel_example_noshape = Inl KeyError"
    by (simp add: NodesFuser_call_def fuse_node_def PixelShuffleFuser_def w0 w1
        w2 [unfolded One_nat_def] e [unfolded One_nat_def] rbind_def)
  with w2 e show ?thesis by simp
qed

theorem PixelShuffle_is_eligible_raises_witness:
  "PixelShuffle_is_eligible pixel_example_noshape [0, 1, 2] = Inl KeyError
   \<and> NodesFuser_call (PixelShuffleFuser Graph_get_unique_edge_name) 0 pixel_example_noshape
       = Inl KeyError"
  using PixelShuffle_is_eligible_raises [of Graph_get_unique_edge_name] by simp

section \<open>Properties of the tensor operations\<close>











section \<open>Properties of ConvAddFuser\<close>



lemma list_remove_Inr: "(list_remove xs x = Inr ys) = (x \<in> set xs \<and> ys = remove1 x xs)"
  by (auto simp: list_remove_def)





lemma ConvAdd_bias_unfold:
  "ConvAdd_bias h p oc =
     (if length (inputs (h p)) > 2
      then (case map_of (input_tensors (h p)) (inputs (h p) ! 2) of
              None \<Rightarrow> Inl KeyError
            | Some bias \<Rightarrow> Inr (inputs (h p) ! 2, bias, h))
      else Inr (name (h p) @ ''_bias'', np_zeros oc,
                h(p := (h p)\<lparr>inputs := inputs (h p) @ [name (h p) @ ''_bias''],
                             input_tensors := dict_set (input_tensors (h p))
                                (name (h p) @ ''_bias'') (np_zeros oc)\<rparr>)))"
  by (simp add: ConvAdd_bias_def Let_def rbind_def list_get_def dict_get_def update_node_def
      split: option.splits)


lemma dict_set_twice [simp]: "dict_set (dict_set d k v) k v' = dict_set d k v'"
  by (induction d) auto




lemma conv_add_example_eligible:
  "ConvAdd_is_eligible conv_add_example [0, 1] = Inr True"
  "ConvAdd_is_eligible conv_bias_add_example [0, 1] = Inr True"
  "ConvAdd_is_eligible conv_add_input_example [0, 1] = Inr True"
  by (simp_all add: ConvAdd_is_eligible_def rbind_def list_get_def dict_has_def dict_get_def
      conv_add_example_def conv_bias_add_example_def conv_add_input_example_def
      update_node_def empty_heap_def Node_def)



text \<open>
  C10.  \<^verbatim>\<open>ConvAddFuser.is_eligible\<close> does not ask for the second operand of the Add to
  be a literal tensor.  In the graph below that operand is the graph input \<open>bias\<close>: the
  window of the Add is matched and eligible, and \<^verbatim>\<open>merge\<close> ends in the KeyError of
  the lookup \<^verbatim>\<open>child.input_tensors[child.inputs[1]]\<close> (line 122), which ends the whole
  pass, instead of leaving the window as it is.
\<close>

theorem ConvAdd_merge_unguarded:
  "match_window (heap conv_add_input_example) 2 1 = Inr (Some [0, 1])
   \<and> ConvAdd_is_eligible conv_add_input_example [0, 1] = Inr True
   \<and> inputs (heap conv_add_input_example 1) ! 1 = ''bias''
   \<and> map_of (graph_inputs conv_add_input_example) ''bias'' = Some [2]
   \<and> dict_has (input_tensors (heap conv_add_input_example 1)) ''bias'' = False
   \<and> ConvAdd_merge s conv_add_input_example [0, 1] = Inl KeyError
   \<and> NodesFuser_call ConvAddFuser s conv_add_input_example = Inl KeyError"
proof -
  note ex = conv_add_input_example_def conv_add_example_def update_node_def empty_heap_def
    Node_def weight_example_def
  have w0: "match_window (heap conv_add_input_example) 2 0 = Inr None"
    by (simp add: match_window_def nodes_window_def numeral_2_eq_2 rbind_def ex)
  have w1: "match_window (heap conv_add_input_example) 2 1 = Inr (Some [0, 1])"
    by (simp add: match_window_def nodes_window_def numeral_2_eq_2 rbind_def
        get_only_parent_def list_get_def ex)
  have m: "ConvAdd_merge s conv_add_input_example [0, 1] = Inl KeyError"
    by (simp add: ConvAdd_merge_def rbind_def list_get_def dict_get_def ConvAdd_bias_unfold ex)
  have f: "inputs (heap conv_add_input_example 1) ! 1 = ''bias''"
      "map_of (graph_inputs conv_add_input_example) ''bias'' = Some [2]"
      "dict_has (input_tensors (heap conv_add_input_example 1)) ''bias'' = False"
    by (simp_all add: dict_has_def ex)
  have "nodes conv_add_input_example = [0, 1]"
    by (simp add: conv_add_input_example_def conv_add_example_def)
  then have "NodesFuser_call ConvAddFuser s conv_add_input_example = Inl KeyError"
    by (simp add: NodesFuser_call_def fuse_node_def ConvAddFuser_def w0
        w1 [unfolded One_nat_def] conv_add_example_eligible(3) [unfolded One_nat_def]
        m [unfolded One_nat_def] rbind_def)
  with w1 conv_add_example_eligible(3) m f show ?thesis by simp
qed

theorem ConvAdd_merge_unguarded_witness:
  "ConvAdd_is_eligible conv_add_input_example [0, 1] = Inr True
   \<and> ConvAdd_merge (0::nat) conv_add_input_example [0, 1] = Inl KeyError
   \<and> NodesFuser_call ConvAddFuser (0::nat) conv_add_input_example = Inl KeyError"
  using ConvAdd_merge_unguarded [of "0::nat"] by simp

section \<open>Properties of BNBroadcastedMulFuser\<close>







end
